theory Spec2Isabelle
  imports Complex_Main
begin

section \<open>pycoolmaster: the CoolMaster serial bridge client\<close>

text \<open>
  A shallow embedding of \<^verbatim>\<open>pycoolmaster/__init__.py\<close>. Python strings are
  \<^typ>\<open>string\<close>; every exception the module can raise is a value of \<open>error\<close>; the
  serial port and the wall clock are inputs carried in a \<open>world\<close> record that every
  operation takes and returns. Mutation of a \<^verbatim>\<open>CoolMasterDevice\<close> is explicit state
  passing, and the device is returned on the error path too, since an exception does not
  undo the attribute assignments made before it.
\<close>

subsection \<open>Python string operations used by the module\<close>

definition CR :: char where "CR = CHR 0x0D"
definition LF :: char where "LF = CHR 0x0A"
definition CRLF :: string where "CRLF = [CR, LF]"

text \<open>\<^verbatim>\<open>str.isspace\<close> on one character (code points below 256); the regular expression
  class \<^verbatim>\<open>\s\<close> of a \<^verbatim>\<open>str\<close> pattern matches the same characters.\<close>

definition isspace :: "char \<Rightarrow> bool" where
  "isspace c = (of_char c \<in> {9, 10, 11, 12, 13, 28, 29, 30, 31, 32, 133, 160 :: nat})"

text \<open>\<^verbatim>\<open>s.strip()\<close>\<close>

definition strip :: "string \<Rightarrow> string" where
  "strip s = rev (dropWhile isspace (rev (dropWhile isspace s)))"

text \<open>\<^verbatim>\<open>s.endswith(suffix)\<close>\<close>

definition endswith :: "string \<Rightarrow> string \<Rightarrow> bool" where
  "endswith s suf = (length suf \<le> length s \<and> drop (length s - length suf) s = suf)"

text \<open>\<^verbatim>\<open>s.lower()\<close>; the strings lowered by the module are ASCII (they come out of
  \<^verbatim>\<open>decode("ascii")\<close>), where only A..Z change.\<close>

definition lower_char :: "char \<Rightarrow> char" where
  "lower_char c = (if 65 \<le> (of_char c :: nat) \<and> (of_char c :: nat) \<le> 90
                   then char_of (of_char c + 32 :: nat) else c)"

definition lower :: "string \<Rightarrow> string" where
  "lower s = map lower_char s"

text \<open>\<^verbatim>\<open>s.split("\r\n")\<close>: the pieces between the separators, the current piece in
  the accumulator.\<close>

fun split_crlf_acc :: "string \<Rightarrow> string \<Rightarrow> string list" where
  "split_crlf_acc acc [] = [acc]"
| "split_crlf_acc acc [c] = [acc @ [c]]"
| "split_crlf_acc acc (c # d # cs) =
     (if c = CR \<and> d = LF then acc # split_crlf_acc [] cs
      else split_crlf_acc (acc @ [c]) (d # cs))"

definition split_crlf :: "string \<Rightarrow> string list" where
  "split_crlf s = split_crlf_acc [] s"

text \<open>\<^verbatim>\<open>re.split(r"\s+", s)\<close>: the pieces between maximal runs of whitespace; a run
  at either end leaves an empty piece there, and the empty string gives one empty piece.\<close>

function re_split_ws_acc :: "string \<Rightarrow> string \<Rightarrow> string list" where
  "re_split_ws_acc acc [] = [acc]"
| "re_split_ws_acc acc (c # cs) =
     (if isspace c then acc # re_split_ws_acc [] (dropWhile isspace cs)
      else re_split_ws_acc (acc @ [c]) cs)"
  by pat_completeness auto
termination
  by (relation "measure (\<lambda>(acc, s). length s)")
     (auto simp: le_imp_less_Suc length_dropWhile_le)

definition re_split_ws :: "string \<Rightarrow> string list" where
  "re_split_ws s = re_split_ws_acc [] s"

text \<open>\<^verbatim>\<open>s.replace(old, new)\<close> for a non-empty \<open>old\<close> (the module replaces
  \<^verbatim>\<open>"UID"\<close> and \<^verbatim>\<open>","\<close>): left to right, occurrences that do not overlap.\<close>

function replace :: "string \<Rightarrow> string \<Rightarrow> string \<Rightarrow> string" where
  "replace old new [] = []"
| "replace old new (c # cs) =
     (if old \<noteq> [] \<and> take (length old) (c # cs) = old
      then new @ replace old new (drop (length old) (c # cs))
      else c # replace old new cs)"
  by pat_completeness auto
termination
  by (relation "measure (\<lambda>(old, new, s). length s)") auto

text \<open>\<^verbatim>\<open>" ".join(xs)\<close>\<close>

fun join_space :: "string list \<Rightarrow> string" where
  "join_space [] = []"
| "join_space [x] = x"
| "join_space (x # y # xs) = x @ '' '' @ join_space (y # xs)"

text \<open>\<^verbatim>\<open>encode("ascii")\<close> and \<^verbatim>\<open>decode("ascii")\<close> succeed on code points below 128
  only.\<close>

definition is_ascii :: "string \<Rightarrow> bool" where
  "is_ascii s = list_all (\<lambda>c. (of_char c :: nat) < 128) s"

subsection \<open>Python's \<^verbatim>\<open>float(str)\<close>\<close>

text \<open>
  A float is represented by the number its numeral denotes: the rounding of that number to
  binary64 (and the overflow of a huge exponent to infinity) is not modelled, so
  \<open>Finite (493 / 100)\<close> stands for the float that Python writes \<^verbatim>\<open>4.93\<close>.
  The grammar is the one of \<^verbatim>\<open>float\<close>: surrounding whitespace, underscores between
  digits, a sign, then \<^verbatim>\<open>inf\<close>, \<^verbatim>\<open>infinity\<close>, \<^verbatim>\<open>nan\<close> or a decimal numeral with an
  optional fraction and exponent. \<open>None\<close> is the \<^verbatim>\<open>ValueError\<close>.

  The whitespace that \<^verbatim>\<open>float\<close> strips is not that of \<^verbatim>\<open>str.strip\<close>: a code point
  below 127 is kept as it is, the whitespace characters above (0x85 and 0xA0 among the
  code points below 256) become spaces, and then tab, line feed, vertical tab, form feed,
  carriage return and space are stripped at both ends. So the separators 0x1C to 0x1F
  are not stripped. Any other code point from 127 on is replaced by \<^verbatim>\<open>?\<close> there, which
  the grammar rejects as it rejects the code point itself.
\<close>

definition float_space :: "char \<Rightarrow> bool" where
  "float_space c = (of_char c \<in> {9, 10, 11, 12, 13, 32 :: nat})"

definition float_strip :: "string \<Rightarrow> string" where
  "float_strip s =
     (let t = map (\<lambda>c. if of_char c \<in> {133, 160 :: nat} then CHR '' '' else c) s
      in rev (dropWhile float_space (rev (dropWhile float_space t))))"

datatype pyfloat = Finite rat | Infinity bool | NaN

definition is_digit :: "char \<Rightarrow> bool" where
  "is_digit c = (48 \<le> (of_char c :: nat) \<and> (of_char c :: nat) \<le> 57)"

definition digits_val :: "string \<Rightarrow> nat" where
  "digits_val ds = foldl (\<lambda>a c. 10 * a + (of_char c - 48)) 0 ds"

text \<open>An underscore is allowed only between two digits.\<close>

fun underscores_ok :: "char \<Rightarrow> string \<Rightarrow> bool" where
  "underscores_ok prev [] = (prev \<noteq> CHR ''_'')"
| "underscores_ok prev (c # cs) =
     (if c = CHR ''_'' then is_digit prev \<and> underscores_ok c cs
      else (prev = CHR ''_'' \<longrightarrow> is_digit c) \<and> underscores_ok c cs)"

definition scale10 :: "nat \<Rightarrow> int \<Rightarrow> rat" where
  "scale10 m k = (if 0 \<le> k then of_nat m * 10 ^ nat k else of_nat m / 10 ^ nat (- k))"

definition split_sign :: "string \<Rightarrow> bool \<times> string" where
  "split_sign s = (case s of
       [] \<Rightarrow> (False, [])
     | c # cs \<Rightarrow> if c = CHR ''-'' then (True, cs)
                else if c = CHR ''+'' then (False, cs) else (False, s))"

definition float_decimal :: "string \<Rightarrow> rat option" where
  "float_decimal s =
     (let ip = takeWhile is_digit s;
          r1 = dropWhile is_digit s;
          fp = (case r1 of [] \<Rightarrow> [] | c # r \<Rightarrow> if c = CHR ''.'' then takeWhile is_digit r else []);
          r2 = (case r1 of [] \<Rightarrow> [] | c # r \<Rightarrow> if c = CHR ''.'' then dropWhile is_digit r else r1)
      in if ip = [] \<and> fp = [] then None
         else (case r2 of
                 [] \<Rightarrow> Some (scale10 (digits_val (ip @ fp)) (- int (length fp)))
               | e # r3 \<Rightarrow>
                   if e = CHR ''e'' \<or> e = CHR ''E'' then
                     (let (neg, ds) = split_sign r3 in
                        if ds \<noteq> [] \<and> list_all is_digit ds
                        then Some (scale10 (digits_val (ip @ fp))
                               ((if neg then - int (digits_val ds) else int (digits_val ds))
                                  - int (length fp)))
                        else None)
                   else None))"

definition py_float :: "string \<Rightarrow> pyfloat option" where
  "py_float s =
     (let t = float_strip s in
      if \<not> underscores_ok (CHR 0x00) t then None
      else
        (let (neg, v) = split_sign (filter (\<lambda>c. c \<noteq> CHR ''_'') t) in
         if lower v = ''inf'' \<or> lower v = ''infinity'' then Some (Infinity neg)
         else if lower v = ''nan'' then Some NaN
         else (case float_decimal v of
                 None \<Rightarrow> None
               | Some q \<Rightarrow> Some (Finite (if neg then - q else q)))))"

subsection \<open>Module constants\<close>

text \<open>The dictionaries keep their insertion order, as Python's do; a key is looked up
  with \<^const>\<open>map_of\<close>. The value \<^verbatim>\<open>None\<close> of a swing name is \<open>None\<close>.\<close>

definition SWING_CHAR_TO_NAME :: "(string \<times> string option) list" where
  "SWING_CHAR_TO_NAME =
     [(''-'', None), (''0'', None), (''a'', Some ''auto''), (''h'', Some ''horizontal''),
      (''3'', Some ''30''), (''4'', Some ''45''), (''6'', Some ''60''),
      (''v'', Some ''vertical'')]"

definition SWING_NAME_TO_CHAR :: "(string \<times> string) list" where
  "SWING_NAME_TO_CHAR =
     [(''auto'', ''a''), (''horizontal'', ''h''), (''30'', ''3''), (''45'', ''4''),
      (''60'', ''6''), (''vertical'', ''v'')]"

definition FAN_SPEEDS :: "string list" where
  "FAN_SPEEDS = [''low'', ''med'', ''high'', ''auto'', ''top'']"

definition MODES :: "string list" where
  "MODES = [''auto'', ''cool'', ''dry'', ''fan'', ''heat'']"

subsection \<open>Errors, the serial link and the clock\<close>

text \<open>
  One constructor for each exception the module raises or lets through:
  \<^item> \<open>SerialException\<close>: any call on the serial port failed;
  \<^item> \<open>PromptNotFound\<close>: \<^verbatim>\<open>Exception("CoolMaster prompt not found")\<close>;
  \<^item> \<open>UnicodeEncodeError\<close>, \<open>UnicodeDecodeError\<close>: \<^verbatim>\<open>encode("ascii")\<close> and
    \<^verbatim>\<open>decode("ascii")\<close> (both are subclasses of \<^verbatim>\<open>ValueError\<close> in Python);
  \<^item> \<open>UnexpectedStatusLine fields\<close>:
    \<^verbatim>\<open>Exception("Unexpected status line format: " + str(fields))\<close>;
  \<^item> \<open>IndexError\<close>: \<^verbatim>\<open>fields[2][-1]\<close> on an empty string;
  \<^item> \<open>FloatValueError s\<close>: the \<^verbatim>\<open>ValueError\<close> of \<^verbatim>\<open>float(s)\<close>;
  \<^item> \<open>KeyError k\<close>: \<^verbatim>\<open>_SWING_CHAR_TO_NAME[k]\<close> with an unknown key;
  \<^item> \<open>ValueError msg\<close>: raised by \<^verbatim>\<open>set_mode\<close> and \<^verbatim>\<open>set_swing\<close>;
  \<^item> \<open>TypeError\<close>: the membership test of a dictionary on an unhashable object, or
    \<^verbatim>\<open>value + " UID"\<close> on an object that is not a \<^verbatim>\<open>str\<close>;
  \<^item> \<open>AttributeError name\<close>: reading a cached attribute that was never assigned.
\<close>

datatype error =
    SerialException
  | PromptNotFound
  | UnicodeEncodeError
  | UnicodeDecodeError
  | UnexpectedStatusLine "string list"
  | IndexError
  | FloatValueError string
  | KeyError string
  | ValueError string
  | TypeError
  | AttributeError string

text \<open>
  What the serial port does during one exchange: either a serial call raises
  (\<open>SerialFails\<close>, taken to happen before anything is written), or
  \<^verbatim>\<open>read_until(b">")\<close> returns the first byte string and \<^verbatim>\<open>read_until(b"\r\n>")\<close>
  the second (\<^verbatim>\<open>read_until\<close> returns what it has when the read timeout expires, so the
  second need not end with the terminator). The lazily created port object itself is not
  modelled apart from that.
\<close>

datatype link_reply = SerialFails | Reads string string

text \<open>
  The world: \<open>link w n\<close> is the behaviour of the (n+1)-th exchange to come, \<open>clock w n\<close>
  the (n+1)-th reading of \<^verbatim>\<open>time.time()\<close> to come, \<open>written w\<close> the byte strings passed
  to \<^verbatim>\<open>write\<close> so far.
\<close>

record world =
  link :: "nat \<Rightarrow> link_reply"
  clock :: "nat \<Rightarrow> rat"
  written :: "string list"

definition time_time :: "world \<Rightarrow> rat \<times> world" where
  "time_time w = (clock w 0, w\<lparr>clock := (\<lambda>n. clock w (Suc n))\<rparr>)"

subsection \<open>\<^verbatim>\<open>CoolMaster\<close>\<close>

record coolmaster =
  b_port :: string
  b_baud :: nat
  b_read_timeout :: nat
  b_auto_update :: bool

definition CoolMaster :: "string \<Rightarrow> nat \<Rightarrow> nat \<Rightarrow> bool \<Rightarrow> coolmaster" where
  "CoolMaster p b t a =
     \<lparr>b_port = p, b_baud = b, b_read_timeout = t, b_auto_update = a\<rparr>"

text \<open>Lines 89 to 95 of \<^verbatim>\<open>_make_request\<close>: the two \<^verbatim>\<open>endswith\<close> tests.\<close>

definition response_body :: "string \<Rightarrow> string" where
  "response_body response =
     (let r1 = (if endswith response (CRLF @ ''>'') then butlast response else response)
      in if endswith r1 (''OK'' @ CRLF) then take (length r1 - 4) r1 else r1)"

text \<open>\<^verbatim>\<open>CoolMaster._make_request\<close>\<close>

definition bridge_make_request :: "string \<Rightarrow> world \<Rightarrow> (error + string) \<times> world" where
  "bridge_make_request request w =
     (let w0 = w\<lparr>link := (\<lambda>n. link w (Suc n))\<rparr> in
      case link w 0 of
        SerialFails \<Rightarrow> (Inl SerialException, w0)
      | Reads prompt response \<Rightarrow>
          (let w1 = w0\<lparr>written := written w0 @ [CRLF]\<rparr> in
           if prompt \<noteq> CRLF @ ''>'' then (Inl PromptNotFound, w1)
           else if \<not> is_ascii (request @ CRLF) then (Inl UnicodeEncodeError, w1)
           else
             (let w2 = w1\<lparr>written := written w1 @ [request @ CRLF]\<rparr> in
              if \<not> is_ascii response then (Inl UnicodeDecodeError, w2)
              else (Inr (response_body response), w2))))"

subsection \<open>\<^verbatim>\<open>CoolMasterDevice\<close>\<close>

text \<open>
  The attributes of a device. Those assigned only by a refresh are \<open>None\<close> until then
  (the attribute does not exist); \<^verbatim>\<open>_swing_mode\<close> holds \<^verbatim>\<open>None\<close> or a name once it
  exists.
\<close>

record device =
  d_bridge :: coolmaster
  d_uid :: string
  d_last_refresh_time :: rat
  d_auto_update :: bool
  d_is_on :: "bool option"
  d_unit :: "string option"
  d_thermostat :: "pyfloat option"
  d_temperature :: "pyfloat option"
  d_fan_speed :: "string option"
  d_mode :: "string option"
  d_swing_mode :: "string option option"

definition CoolMasterDevice :: "coolmaster \<Rightarrow> string \<Rightarrow> bool \<Rightarrow> device" where
  "CoolMasterDevice bridge u a =
     \<lparr>d_bridge = bridge, d_uid = u, d_last_refresh_time = 0, d_auto_update = a,
      d_is_on = None, d_unit = None, d_thermostat = None, d_temperature = None,
      d_fan_speed = None, d_mode = None, d_swing_mode = None\<rparr>"

text \<open>\<^verbatim>\<open>CoolMaster.devices\<close>; the slice \<^verbatim>\<open>line[0:3]\<close> is \<open>take 3 line\<close>.\<close>

definition devices :: "coolmaster \<Rightarrow> world \<Rightarrow> (error + device list) \<times> world" where
  "devices b w =
     (case bridge_make_request ''stat2'' w of
        (Inl e, w1) \<Rightarrow> (Inl e, w1)
      | (Inr r, w1) \<Rightarrow>
          (Inr (map (\<lambda>line. CoolMasterDevice b (take 3 line) (b_auto_update b))
                  (split_crlf (strip r))), w1))"

text \<open>Lines 151 to 153 of \<^verbatim>\<open>_update_status\<close>: the swing name of a swing response.\<close>

definition decode_swing :: "string \<Rightarrow> error + string option" where
  "decode_swing swing_line =
     (if swing_line \<noteq> [] then
        (case map_of SWING_CHAR_TO_NAME (strip swing_line) of
           None \<Rightarrow> Inl (KeyError (strip swing_line))
         | Some name \<Rightarrow> Inr name)
      else Inr None)"

text \<open>
  \<^verbatim>\<open>CoolMasterDevice._update_status\<close>. The attributes are assigned one after the other,
  so each failure returns the device as it is at that point.
\<close>

definition private_update_status :: "world \<Rightarrow> device \<Rightarrow> (error + unit) \<times> world \<times> device" where
  "private_update_status w d =
     (case bridge_make_request (''stat2 '' @ d_uid d) w of
        (Inl e, w1) \<Rightarrow> (Inl e, w1, d)
      | (Inr status_line, w1) \<Rightarrow>
          (let fields = re_split_ws (strip status_line) in
           if length fields \<noteq> 8 then (Inl (UnexpectedStatusLine fields), w1, d)
           else
             (let d1 = d\<lparr>d_is_on := Some (fields ! 1 = ''ON'')\<rparr> in
              if fields ! 2 = [] then (Inl IndexError, w1, d1)
              else
                (let d2 = d1\<lparr>d_unit := Some (if last (fields ! 2) = CHR ''F''
                                               then ''imperial'' else ''celsius'')\<rparr> in
                 case py_float (butlast (fields ! 2)) of
                   None \<Rightarrow> (Inl (FloatValueError (butlast (fields ! 2))), w1, d2)
                 | Some th \<Rightarrow>
                     (let d3 = d2\<lparr>d_thermostat := Some th\<rparr> in
                      case py_float (replace '','' ''.'' (butlast (fields ! 3))) of
                        None \<Rightarrow>
                          (Inl (FloatValueError (replace '','' ''.'' (butlast (fields ! 3)))),
                           w1, d3)
                      | Some t \<Rightarrow>
                          (let d4 = d3\<lparr>d_temperature := Some t,
                                       d_fan_speed := Some (lower (fields ! 4)),
                                       d_mode := Some (lower (fields ! 5))\<rparr> in
                           case bridge_make_request (''query '' @ d_uid d @ '' s'') w1 of
                             (Inl e, w2) \<Rightarrow> (Inl e, w2, d4)
                           | (Inr swing_line, w2) \<Rightarrow>
                               (let d5 = d4\<lparr>d_swing_mode := Some None\<rparr> in
                                case decode_swing swing_line of
                                  Inl e \<Rightarrow> (Inl e, w2, d5)
                                | Inr name \<Rightarrow>
                                    (let (now, w3) = time_time w2 in
                                     (Inr (), w3,
                                      d5\<lparr>d_swing_mode := Some name,
                                         d_last_refresh_time := now\<rparr>)))))))))"

text \<open>\<^verbatim>\<open>_update_if_needed\<close>: \<^verbatim>\<open>and\<close> reads the clock only when auto-update is on.\<close>

definition update_if_needed :: "world \<Rightarrow> device \<Rightarrow> (error + unit) \<times> world \<times> device" where
  "update_if_needed w d =
     (if d_auto_update d then
        (let (now, w1) = time_time w in
         if now - d_last_refresh_time d \<ge> 1 then private_update_status w1 d
         else (Inr (), w1, d))
      else (Inr (), w, d))"

text \<open>\<^verbatim>\<open>_clear_status\<close>\<close>

definition clear_status :: "device \<Rightarrow> device" where
  "clear_status d = d\<lparr>d_last_refresh_time := 0\<rparr>"

text \<open>\<^verbatim>\<open>CoolMasterDevice._make_request\<close>\<close>

definition device_make_request :: "string \<Rightarrow> world \<Rightarrow> device \<Rightarrow> (error + string) \<times> world" where
  "device_make_request format_str w d =
     bridge_make_request (replace ''UID'' (d_uid d) format_str) w"

text \<open>A command: one request, then \<^verbatim>\<open>_clear_status\<close> if the request returned.\<close>

definition request_then_clear :: "string \<Rightarrow> world \<Rightarrow> device \<Rightarrow> (error + unit) \<times> world \<times> device" where
  "request_then_clear format_str w d =
     (case device_make_request format_str w d of
        (Inl e, w1) \<Rightarrow> (Inl e, w1, d)
      | (Inr r, w1) \<Rightarrow> (Inr (), w1, clear_status d))"

text \<open>
  The argument of \<^verbatim>\<open>set_mode\<close> and \<^verbatim>\<open>set_swing\<close> is any object: \<open>Str s\<close> is the
  \<^verbatim>\<open>str\<close> \<open>s\<close>, and \<open>Obj h t\<close> is an object of another builtin type (\<^verbatim>\<open>None\<close>, a
  number, a list, a dictionary, ...), of which the module uses two things: whether it is
  hashable (\<open>h\<close>) and the text that \<^verbatim>\<open>"{}".format\<close> produces for it (\<open>t\<close>). Such an object
  is equal to no \<^verbatim>\<open>str\<close>.
\<close>

datatype pyarg = Str string | Obj bool string

definition hashable :: "pyarg \<Rightarrow> bool" where
  "hashable a = (case a of Str s \<Rightarrow> True | Obj h t \<Rightarrow> h)"

definition py_format :: "pyarg \<Rightarrow> string" where
  "py_format a = (case a of Str s \<Rightarrow> s | Obj h t \<Rightarrow> t)"

text \<open>\<^verbatim>\<open>value in _SWING_NAME_TO_CHAR\<close> and \<^verbatim>\<open>_SWING_NAME_TO_CHAR[value]\<close>: the
  dictionary hashes the key first, which raises for an unhashable object.\<close>

definition swing_name_lookup :: "pyarg \<Rightarrow> error + string option" where
  "swing_name_lookup a =
     (if \<not> hashable a then Inl TypeError
      else Inr (case a of Str s \<Rightarrow> map_of SWING_NAME_TO_CHAR s | Obj h t \<Rightarrow> None))"

text \<open>\<^verbatim>\<open>set_fan_speed\<close> and \<^verbatim>\<open>set_thermostat\<close> only format their argument; they take
  the text that \<^verbatim>\<open>"{}".format(value)\<close> produces for it.\<close>

definition set_fan_speed :: "string \<Rightarrow> world \<Rightarrow> device \<Rightarrow> (error + unit) \<times> world \<times> device" where
  "set_fan_speed v w d = request_then_clear (''fspeed UID '' @ v) w d"

text \<open>\<^verbatim>\<open>value in _MODES\<close> compares the object with each mode, which raises for no
  object.\<close>

definition set_mode :: "pyarg \<Rightarrow> world \<Rightarrow> device \<Rightarrow> (error + unit) \<times> world \<times> device" where
  "set_mode a w d =
     (if a \<in> Str ` set MODES then
        (case a of
           Str v \<Rightarrow> request_then_clear (v @ '' UID'') w d
         | Obj h t \<Rightarrow> (Inl TypeError, w, d))
      else (Inl (ValueError (''Unrecognized mode '' @ py_format a @ ''. Valid values: ''
                               @ join_space MODES)), w, d))"

definition set_thermostat :: "string \<Rightarrow> world \<Rightarrow> device \<Rightarrow> (error + unit) \<times> world \<times> device" where
  "set_thermostat v w d = request_then_clear (''temp UID '' @ v) w d"

definition set_swing :: "pyarg \<Rightarrow> world \<Rightarrow> device \<Rightarrow> (error + unit) \<times> world \<times> device" where
  "set_swing a w d =
     (case swing_name_lookup a of
        Inl e \<Rightarrow> (Inl e, w, d)
      | Inr (Some c) \<Rightarrow> request_then_clear (''swing UID '' @ c) w d
      | Inr None \<Rightarrow>
          (Inl (ValueError (''Unrecognized swing mode '' @ py_format a @ ''. Valid values: ''
                              @ join_space (map fst SWING_NAME_TO_CHAR))), w, d))"

definition turn_on :: "world \<Rightarrow> device \<Rightarrow> (error + unit) \<times> world \<times> device" where
  "turn_on w d = request_then_clear ''on UID'' w d"

definition turn_off :: "world \<Rightarrow> device \<Rightarrow> (error + unit) \<times> world \<times> device" where
  "turn_off w d = request_then_clear ''off UID'' w d"

definition update_status :: "world \<Rightarrow> device \<Rightarrow> (error + unit) \<times> world \<times> device" where
  "update_status w d = private_update_status w (clear_status d)"

subsection \<open>Properties\<close>

text \<open>\<^verbatim>\<open>autoupdate_property\<close>: refresh if needed, then run the getter on the device.\<close>

definition autoupdate_property ::
  "(device \<Rightarrow> error + 'a) \<Rightarrow> world \<Rightarrow> device \<Rightarrow> (error + 'a) \<times> world \<times> device" where
  "autoupdate_property func w d =
     (case update_if_needed w d of
        (Inl e, w1, d1) \<Rightarrow> (Inl e, w1, d1)
      | (Inr u, w1, d1) \<Rightarrow> (func d1, w1, d1))"

text \<open>Reading an attribute that a refresh has not assigned yet raises.\<close>

definition attr :: "string \<Rightarrow> 'a option \<Rightarrow> error + 'a" where
  "attr name v = (case v of None \<Rightarrow> Inl (AttributeError name) | Some x \<Rightarrow> Inr x)"

definition fan_speed :: "world \<Rightarrow> device \<Rightarrow> (error + string) \<times> world \<times> device" where
  "fan_speed = autoupdate_property (\<lambda>d. attr ''_fan_speed'' (d_fan_speed d))"

definition is_on :: "world \<Rightarrow> device \<Rightarrow> (error + bool) \<times> world \<times> device" where
  "is_on = autoupdate_property (\<lambda>d. attr ''_is_on'' (d_is_on d))"

definition mode :: "world \<Rightarrow> device \<Rightarrow> (error + string) \<times> world \<times> device" where
  "mode = autoupdate_property (\<lambda>d. attr ''_mode'' (d_mode d))"

definition swing :: "world \<Rightarrow> device \<Rightarrow> (error + string option) \<times> world \<times> device" where
  "swing = autoupdate_property (\<lambda>d. attr ''_swing_mode'' (d_swing_mode d))"

definition temperature :: "world \<Rightarrow> device \<Rightarrow> (error + pyfloat) \<times> world \<times> device" where
  "temperature = autoupdate_property (\<lambda>d. attr ''_temperature'' (d_temperature d))"

definition thermostat :: "world \<Rightarrow> device \<Rightarrow> (error + pyfloat) \<times> world \<times> device" where
  "thermostat = autoupdate_property (\<lambda>d. attr ''_thermostat'' (d_thermostat d))"

definition unit :: "world \<Rightarrow> device \<Rightarrow> (error + string) \<times> world \<times> device" where
  "unit = autoupdate_property (\<lambda>d. attr ''_unit'' (d_unit d))"

definition uid :: "device \<Rightarrow> string" where
  "uid d = d_uid d"

text \<open>The dictionary of \<^verbatim>\<open>status\<close>, its values in the order the source evaluates
  them.\<close>

datatype pyvalue = PyStr string | PyBool bool | PyFloat pyfloat | PyNone

definition status_dict :: "device \<Rightarrow> error + (string \<times> pyvalue) list" where
  "status_dict d =
     (case attr ''_fan_speed'' (d_fan_speed d) of Inl e \<Rightarrow> Inl e | Inr fs \<Rightarrow>
     (case attr ''_is_on'' (d_is_on d) of Inl e \<Rightarrow> Inl e | Inr on \<Rightarrow>
     (case attr ''_mode'' (d_mode d) of Inl e \<Rightarrow> Inl e | Inr m \<Rightarrow>
     (case attr ''_swing_mode'' (d_swing_mode d) of Inl e \<Rightarrow> Inl e | Inr sw \<Rightarrow>
     (case attr ''_temperature'' (d_temperature d) of Inl e \<Rightarrow> Inl e | Inr t \<Rightarrow>
     (case attr ''_thermostat'' (d_thermostat d) of Inl e \<Rightarrow> Inl e | Inr th \<Rightarrow>
     (case attr ''_unit'' (d_unit d) of Inl e \<Rightarrow> Inl e | Inr un \<Rightarrow>
        Inr [(''fan_speed'', PyStr fs), (''is_on'', PyBool on), (''mode'', PyStr m),
             (''swing'', (case sw of None \<Rightarrow> PyNone | Some n \<Rightarrow> PyStr n)),
             (''temperature'', PyFloat t), (''thermostat'', PyFloat th),
             (''uid'', PyStr (d_uid d)), (''unit'', PyStr un)])))))))"

definition status :: "world \<Rightarrow> device \<Rightarrow> (error + (string \<times> pyvalue) list) \<times> world \<times> device" where
  "status = autoupdate_property status_dict"

text \<open>From a swing name to its character and back through the two tables.\<close>

definition swing_round_trip :: "string \<Rightarrow> string option option" where
  "swing_round_trip name =
     (case map_of SWING_NAME_TO_CHAR name of
        None \<Rightarrow> None
      | Some c \<Rightarrow> map_of SWING_CHAR_TO_NAME c)"

text \<open>The six commands that change the unit: \<^verbatim>\<open>set_mode\<close> and \<^verbatim>\<open>set_swing\<close> with the
  object \<open>a\<close>, \<^verbatim>\<open>set_fan_speed\<close> and \<^verbatim>\<open>set_thermostat\<close> with the text \<open>v\<close>.\<close>

definition mutating_commands ::
  "pyarg \<Rightarrow> string \<Rightarrow> (world \<Rightarrow> device \<Rightarrow> (error + unit) \<times> world \<times> device) list" where
  "mutating_commands a v =
     [turn_on, turn_off, set_mode a, set_fan_speed v, set_thermostat v, set_swing a]"

text \<open>The three components of what an operation on a device returns.\<close>

abbreviation outcome :: "'r \<times> world \<times> device \<Rightarrow> 'r" where
  "outcome x \<equiv> fst x"

abbreviation world_after :: "'r \<times> world \<times> device \<Rightarrow> world" where
  "world_after x \<equiv> fst (snd x)"

abbreviation device_after :: "'r \<times> world \<times> device \<Rightarrow> device" where
  "device_after x \<equiv> snd (snd x)"

subsection \<open>The response body as the specification words it\<close>

text \<open>
  The specification of the transport session says: strip the trailing \<^verbatim>\<open>>\<close> if present,
  then strip a trailing \<^verbatim>\<open>OK\r\n\<close> marker if present. \<open>spec_response_body\<close> follows these
  words, to be compared with \<^const>\<open>response_body\<close>, which follows the source.
\<close>

definition spec_response_body :: "string \<Rightarrow> string" where
  "spec_response_body response =
     (let r1 = (if response \<noteq> [] \<and> last response = CHR ''>'' then butlast response
                else response)
      in if endswith r1 (''OK'' @ CRLF) then take (length r1 - 4) r1 else r1)"

subsection \<open>Concrete bridges, devices and worlds\<close>

definition example_bridge :: coolmaster where
  "example_bridge = CoolMaster ''/dev/ttyUSB0'' 9600 5 True"

definition example_status_line :: string where
  "example_status_line = ''101 OFF 32C 04,93C Low  Dry  OK 1''"

text \<open>An exchange in which the bridge shows its prompt and answers with one line, the
  success sentinel and the next prompt.\<close>

definition answers :: "string \<Rightarrow> link_reply" where
  "answers body = Reads (CRLF @ ''>'') (body @ CRLF @ ''OK'' @ CRLF @ ''>'')"

text \<open>A bridge that answers the first exchange with the status line and every later one
  with the given swing line, at clock reading 1000, after the writes \<open>ws\<close>.\<close>

definition status_then :: "string list \<Rightarrow> string \<Rightarrow> world" where
  "status_then ws swing_body =
     \<lparr>link = (\<lambda>n. if n = 0 then answers example_status_line else answers swing_body),
      clock = (\<lambda>n. 1000), written = ws\<rparr>"

definition example_world :: world where
  "example_world = status_then [] ''h''"

text \<open>A bridge that acknowledges a command first and then behaves as \<open>example_world\<close>.\<close>

definition command_then_status :: world where
  "command_then_status =
     \<lparr>link = (\<lambda>n. if n = 0 then Reads (CRLF @ ''>'') (''OK'' @ CRLF @ ''>'')
                  else if n = 1 then answers example_status_line else answers ''h''),
      clock = (\<lambda>n. 1000), written = []\<rparr>"

text \<open>A bridge whose every response is the given raw byte string.\<close>

definition always_reads :: "string \<Rightarrow> world" where
  "always_reads raw = \<lparr>link = (\<lambda>n. Reads (CRLF @ ''>'') raw), clock = (\<lambda>n. 1000), written = []\<rparr>"

text \<open>A fresh device, one holding the snapshot of an earlier refresh at time \<open>t\<close>, and
  the latter with auto-update switched off.\<close>

definition example_device :: device where
  "example_device = CoolMasterDevice example_bridge ''101'' True"

definition cached_device :: "rat \<Rightarrow> device" where
  "cached_device t =
     \<lparr>d_bridge = example_bridge, d_uid = ''101'', d_last_refresh_time = t,
      d_auto_update = True, d_is_on = Some True, d_unit = Some ''celsius'',
      d_thermostat = Some (Finite 25), d_temperature = Some (Finite 26),
      d_fan_speed = Some ''high'', d_mode = Some ''cool'',
      d_swing_mode = Some (Some ''auto'')\<rparr>"

text \<open>The list \<^verbatim>\<open>['auto']\<close>: unhashable, and formatted as it is written.\<close>

definition auto_list :: pyarg where
  "auto_list = Obj False (''['' @ [CHR 0x27] @ ''auto'' @ [CHR 0x27] @ '']'')"

definition manual_device :: device where
  "manual_device = (cached_device 999)\<lparr>d_auto_update := False\<rparr>"

section \<open>Verification\<close>

subsection \<open>The string operations on small inputs\<close>

text \<open>What Python returns for the same calls.\<close>

lemma strip_examples:
  "strip ('' ab '' @ CRLF) = ''ab''" "strip '' '' = []" "strip ''a b'' = ''a b''"
  by (simp_all add: strip_def isspace_def CRLF_def CR_def LF_def)

lemma re_split_ws_examples:
  "re_split_ws [] = [[]]" "re_split_ws ''a  b'' = [''a'', ''b'']"
  "re_split_ws '' a'' = [[], ''a'']" "re_split_ws ''a '' = [''a'', []]"
  by (simp_all add: re_split_ws_def isspace_def)

lemma split_crlf_examples:
  "split_crlf [] = [[]]" "split_crlf (''a'' @ CRLF @ ''b'') = [''a'', ''b'']"
  "split_crlf (''a'' @ CRLF) = [''a'', []]" "split_crlf (''a'' @ [CR] @ ''b'') = [''a'' @ [CR] @ ''b'']"
  by (simp_all add: split_crlf_def CRLF_def CR_def LF_def)

lemma replace_examples:
  "replace ''UID'' ''101'' ''on UID'' = ''on 101''"
  "replace ''UID'' ''101'' ''fspeed UID UID'' = ''fspeed 101 101''"
  "replace '','' ''.'' ''04,93'' = ''04.93''"
  by simp_all

lemma endswith_examples:
  "endswith ''abc'' ''bc''" "\<not> endswith ''abc'' ''ab''" "endswith ''abc'' []" "\<not> endswith ''c'' ''bc''"
  by (simp_all add: endswith_def)

lemma join_space_examples:
  "join_space MODES = ''auto cool dry fan heat''"
  "join_space (map fst SWING_NAME_TO_CHAR) = ''auto horizontal 30 45 60 vertical''"
  by (simp_all add: MODES_def SWING_NAME_TO_CHAR_def)

lemma py_float_examples:
  "py_float ''1e3'' = Some (Finite 1000)" "py_float ''-.5'' = Some (Finite (- 1 / 2))"
  "py_float ''1_000'' = Some (Finite 1000)" "py_float ''1__0'' = None"
  "py_float ''abc'' = None" "py_float ''1e'' = None" "py_float ''.'' = None"
  "py_float ''-Inf'' = Some (Infinity True)" "py_float ''nan'' = Some NaN"
  "py_float '' 7. '' = Some (Finite 7)" "py_float ([CHR 0x1C] @ ''5'') = None"
  "py_float ([CHR 0xA0] @ ''5'') = Some (Finite 5)"
  by code_simp+

subsection \<open>Strings\<close>

lemma endswith_iff: "endswith s suf \<longleftrightarrow> (\<exists>b. s = b @ suf)"
proof
  assume "endswith s suf"
  then have "s = take (length s - length suf) s @ suf"
    by (metis append_take_drop_id endswith_def)
  then show "\<exists>b. s = b @ suf" ..
next
  assume "\<exists>b. s = b @ suf"
  then show "endswith s suf" by (auto simp: endswith_def)
qed

lemma endswith_append_same: "endswith (b @ s) (t @ s) = endswith b t"
proof -
  have "(\<exists>c. b @ s = c @ t @ s) \<longleftrightarrow> (\<exists>c. b = c @ t)"
    by (metis append_assoc append_same_eq)
  then show ?thesis by (simp add: endswith_iff)
qed

lemma endswith_last: "endswith s (t @ [c]) \<Longrightarrow> s \<noteq> [] \<and> last s = c"
  by (auto simp: endswith_iff)

lemma is_ascii_append [simp]: "is_ascii (s @ t) \<longleftrightarrow> is_ascii s \<and> is_ascii t"
  by (simp add: is_ascii_def)

lemma is_ascii_Nil [simp]: "is_ascii []"
  by (simp add: is_ascii_def)

lemma is_ascii_Cons [simp]: "is_ascii (c # s) \<longleftrightarrow> (of_char c :: nat) < 128 \<and> is_ascii s"
  by (simp add: is_ascii_def)

lemma is_ascii_CRLF [simp]: "is_ascii CRLF"
  by (simp add: is_ascii_def CRLF_def CR_def LF_def)

lemma is_ascii_drop: "is_ascii s \<Longrightarrow> is_ascii (drop n s)"
  unfolding is_ascii_def list_all_iff using set_drop_subset [of n s] by blast

lemma is_ascii_replace: "is_ascii new \<Longrightarrow> is_ascii s \<Longrightarrow> is_ascii (replace old new s)"
proof (induction old new s rule: replace.induct)
  case (1 old new)
  then show ?case by simp
next
  case (2 old new c cs)
  show ?case
  proof (cases "old \<noteq> [] \<and> take (length old) (c # cs) = old")
    case True
    have "is_ascii (drop (length old) (c # cs))"
      using "2.prems"(2) by (rule is_ascii_drop)
    with True 2 show ?thesis by simp
  next
    case False
    with 2 show ?thesis by auto
  qed
qed

lemma is_ascii_take_drop: "is_ascii (take n s) \<Longrightarrow> is_ascii (drop n s) \<Longrightarrow> is_ascii s"
  using is_ascii_append [of "take n s" "drop n s"] by simp

lemma not_is_ascii_replace:
  "is_ascii old \<Longrightarrow> \<not> is_ascii s \<Longrightarrow> \<not> is_ascii (replace old new s)"
proof (induction old new s rule: replace.induct)
  case (1 old new)
  then show ?case by simp
next
  case (2 old new c cs)
  show ?case
  proof (cases "old \<noteq> [] \<and> take (length old) (c # cs) = old")
    case True
    then have "is_ascii (take (length old) (c # cs))"
      using "2.prems"(1) by simp
    then have "\<not> is_ascii (drop (length old) (c # cs))"
      using "2.prems"(2) is_ascii_take_drop by blast
    then have "\<not> is_ascii (replace old new (drop (length old) (c # cs)))"
      using True "2.IH"(1) "2.prems"(1) by blast
    with True show ?thesis by simp
  next
    case False
    show ?thesis
    proof (cases "(of_char c :: nat) < 128")
      case True
      then have "\<not> is_ascii cs"
        using "2.prems"(2) by simp
      then have "\<not> is_ascii (replace old new cs)"
        using False "2.IH"(2) "2.prems"(1) by blast
      with False show ?thesis by auto
    next
      case nonascii: False
      with False show ?thesis by auto
    qed
  qed
qed

subsection \<open>The transport session\<close>

lemma response_body_ok_prompt: "response_body (b @ ''OK'' @ CRLF @ ''>'') = b"
proof -
  have 1: "endswith (b @ ''OK'' @ CRLF @ ''>'') (CRLF @ ''>'')"
    by (simp add: endswith_iff)
  have 2: "butlast (b @ ''OK'' @ CRLF @ ''>'') = b @ ''OK'' @ CRLF"
    by (simp add: butlast_append CRLF_def)
  have 3: "endswith (b @ ''OK'' @ CRLF) (''OK'' @ CRLF)"
    by (simp add: endswith_iff)
  have 4: "take (length (b @ ''OK'' @ CRLF) - 4) (b @ ''OK'' @ CRLF) = b"
    by (simp add: CRLF_def)
  show ?thesis
    unfolding response_body_def Let_def using 1 2 3 4 by presburger
qed

lemma response_body_prompt:
  assumes "\<not> endswith b ''OK''"
  shows "response_body (b @ CRLF @ ''>'') = b @ CRLF"
proof -
  have 1: "endswith (b @ CRLF @ ''>'') (CRLF @ ''>'')"
    by (simp add: endswith_iff)
  have 2: "butlast (b @ CRLF @ ''>'') = b @ CRLF"
    by (simp add: butlast_append CRLF_def)
  have 3: "\<not> endswith (b @ CRLF) (''OK'' @ CRLF)"
    using assms endswith_append_same [of b CRLF "''OK''"] by simp
  show ?thesis
    unfolding response_body_def Let_def using 1 2 3 by presburger
qed

lemma response_body_ok: "response_body (b @ ''OK'' @ CRLF) = b"
proof -
  have "\<not> endswith (b @ ''OK'' @ CRLF) (CRLF @ ''>'')"
    by (auto simp: endswith_iff CRLF_def LF_def dest!: arg_cong [where f = last])
  moreover have "endswith (b @ ''OK'' @ CRLF) (''OK'' @ CRLF)"
    by (simp add: endswith_iff)
  moreover have "take (length (b @ ''OK'' @ CRLF) - 4) (b @ ''OK'' @ CRLF) = b"
    by (simp add: CRLF_def)
  ultimately show ?thesis
    unfolding response_body_def Let_def by presburger
qed

lemma response_body_plain:
  "\<not> endswith raw (CRLF @ ''>'') \<Longrightarrow> \<not> endswith raw (''OK'' @ CRLF) \<Longrightarrow>
   response_body raw = raw"
  by (simp add: response_body_def)

lemma response_body_spec:
  assumes "raw = [] \<or> last raw \<noteq> CHR ''>'' \<or> endswith raw (CRLF @ ''>'')"
  shows "response_body raw = spec_response_body raw"
proof (cases "endswith raw (CRLF @ ''>'')")
  case True
  then have "raw \<noteq> [] \<and> last raw = CHR ''>''"
    using endswith_last [of raw CRLF "CHR ''>''"] by simp
  with True show ?thesis
    by (simp add: response_body_def spec_response_body_def)
next
  case False
  with assms show ?thesis
    by (auto simp: response_body_def spec_response_body_def)
qed

lemma bridge_make_request_effect:
  assumes "bridge_make_request request w = (res, w')"
  shows "link w' = (\<lambda>n. link w (Suc n))" and "clock w' = clock w"
    and "\<And>b. res = Inr b \<Longrightarrow> written w' = written w @ [CRLF, request @ CRLF]"
    and "\<And>e. res = Inl e \<Longrightarrow>
           e \<in> {SerialException, PromptNotFound, UnicodeEncodeError, UnicodeDecodeError}"
  using assms
  by (auto simp: bridge_make_request_def Let_def split: link_reply.splits if_splits)

lemma bridge_make_request_reads:
  assumes "link w 0 = Reads (CRLF @ ''>'') raw" "is_ascii request" "is_ascii raw"
  shows "bridge_make_request request w =
           (Inr (response_body raw),
            w\<lparr>link := (\<lambda>n. link w (Suc n)), written := written w @ [CRLF, request @ CRLF]\<rparr>)"
  using assms by (simp add: bridge_make_request_def Let_def)

lemma bridge_make_request_answers:
  assumes "link w 0 = answers body" "is_ascii request" "is_ascii body"
  shows "bridge_make_request request w =
           (Inr (body @ CRLF),
            w\<lparr>link := (\<lambda>n. link w (Suc n)), written := written w @ [CRLF, request @ CRLF]\<rparr>)"
proof -
  have "is_ascii (body @ CRLF @ ''OK'' @ CRLF @ ''>'')"
    using assms(3) by simp
  moreover have "response_body (body @ CRLF @ ''OK'' @ CRLF @ ''>'') = body @ CRLF"
    using response_body_ok_prompt [of "body @ CRLF"] by simp
  ultimately show ?thesis
    using assms(1,2) bridge_make_request_reads [of w "body @ CRLF @ ''OK'' @ CRLF @ ''>''" request]
    by (simp add: answers_def)
qed

lemma is_ascii_example_status_line: "is_ascii example_status_line"
  by (simp add: example_status_line_def)

text \<open>
  C4 (as amended). When the exchange reads the prompt and an ASCII response, the body
  returned is the response with the final \<^verbatim>\<open>>\<close> removed if the response ends with
  CR LF \<^verbatim>\<open>>\<close>, and with a final \<^verbatim>\<open>OK\<close> CR LF removed if what remains ends with it; the
  rest is returned unchanged, and a response with neither marker is returned as read.
  The four cases are stated on the shape of the response. The body is the one the
  specification's words give whenever the response does not end with \<^verbatim>\<open>>\<close> or ends with
  CR LF \<^verbatim>\<open>>\<close>.
\<close>

theorem make_request_returns_body:
  assumes "link w 0 = Reads (CRLF @ ''>'') raw" and "is_ascii request" and "is_ascii raw"
  shows "(\<forall>b. raw = b @ ''OK'' @ CRLF @ ''>'' \<longrightarrow> fst (bridge_make_request request w) = Inr b)
       \<and> (\<forall>b. raw = b @ CRLF @ ''>'' \<longrightarrow> \<not> endswith b ''OK'' \<longrightarrow>
              fst (bridge_make_request request w) = Inr (b @ CRLF))
       \<and> (\<forall>b. raw = b @ ''OK'' @ CRLF \<longrightarrow> fst (bridge_make_request request w) = Inr b)
       \<and> (\<not> endswith raw (CRLF @ ''>'') \<longrightarrow> \<not> endswith raw (''OK'' @ CRLF) \<longrightarrow>
              fst (bridge_make_request request w) = Inr raw)
       \<and> (raw = [] \<or> last raw \<noteq> CHR ''>'' \<or> endswith raw (CRLF @ ''>'') \<longrightarrow>
              fst (bridge_make_request request w) = Inr (spec_response_body raw))"
proof -
  have "fst (bridge_make_request request w) = Inr (response_body raw)"
    using assms by (simp add: bridge_make_request_reads)
  then show ?thesis
    using response_body_ok_prompt response_body_prompt response_body_ok
      response_body_plain [of raw] response_body_spec [of raw]
    by simp
qed

theorem make_request_returns_body_witness:
  "fst (bridge_make_request ''stat2 101'' example_world) = Inr (example_status_line @ CRLF)"
proof -
  have 1: "link example_world 0
             = Reads (CRLF @ ''>'') ((example_status_line @ CRLF) @ ''OK'' @ CRLF @ ''>'')"
    by (simp add: example_world_def status_then_def answers_def)
  have 2: "is_ascii ''stat2 101''"
    by simp
  have 3: "is_ascii ((example_status_line @ CRLF) @ ''OK'' @ CRLF @ ''>'')"
    using is_ascii_example_status_line by simp
  show ?thesis
    using make_request_returns_body [OF 1 2 3] by blast
qed

text \<open>
  C4 as stated fails: a response that ends with \<^verbatim>\<open>>\<close> without CR LF before it (what
  \<^verbatim>\<open>read_until\<close> returns when the read times out after such a byte) keeps its \<^verbatim>\<open>>\<close>,
  where stripping a trailing \<^verbatim>\<open>>\<close> whenever present would remove it.
\<close>

theorem make_request_keeps_bare_prompt:
  "fst (bridge_make_request ''stat2'' (always_reads ''abc>'')) = Inr ''abc>''
   \<and> spec_response_body ''abc>'' = ''abc''"
  by (simp add: bridge_make_request_def always_reads_def is_ascii_def response_body_def
        spec_response_body_def endswith_def CRLF_def CR_def LF_def)

subsection \<open>The refresh\<close>

lemma decode_swing_error: "decode_swing s = Inl e \<Longrightarrow> e = KeyError (strip s)"
  by (auto simp: decode_swing_def split: if_splits option.splits)

lemma private_update_status_stat_fails:
  assumes "fst (bridge_make_request (''stat2 '' @ d_uid d) w) = Inl e"
  shows "private_update_status w d = (Inl e, snd (bridge_make_request (''stat2 '' @ d_uid d) w), d)"
  using assms by (cases "bridge_make_request (''stat2 '' @ d_uid d) w")
    (simp add: private_update_status_def)

lemma private_update_status_bad_count:
  assumes "fst (bridge_make_request (''stat2 '' @ d_uid d) w) = Inr status_line"
    and "length (re_split_ws (strip status_line)) \<noteq> 8"
  shows "private_update_status w d =
           (Inl (UnexpectedStatusLine (re_split_ws (strip status_line))),
            snd (bridge_make_request (''stat2 '' @ d_uid d) w), d)"
  using assms by (cases "bridge_make_request (''stat2 '' @ d_uid d) w")
    (simp add: private_update_status_def Let_def)

lemma private_update_status_other_error:
  assumes "fst (bridge_make_request (''stat2 '' @ d_uid d) w) = Inr status_line"
    and "length (re_split_ws (strip status_line)) = 8"
  shows "outcome (private_update_status w d) \<noteq> Inl (UnexpectedStatusLine fs)"
  using assms
  by (cases "bridge_make_request (''stat2 '' @ d_uid d) w")
     (auto simp: private_update_status_def Let_def time_time_def
           split: prod.splits sum.splits option.splits if_splits
           dest: bridge_make_request_effect(4) decode_swing_error)

lemma private_update_status_failure:
  assumes "outcome (private_update_status w d) = Inl e"
  shows "d_last_refresh_time (device_after (private_update_status w d)) = d_last_refresh_time d"
    and "d_uid (device_after (private_update_status w d)) = d_uid d"
    and "d_auto_update (device_after (private_update_status w d)) = d_auto_update d"
  using assms
  by (auto simp: private_update_status_def Let_def time_time_def
           split: prod.splits sum.splits option.splits if_splits)

text \<open>What a refresh does once the status line has eight fields and both numbers
  convert: the six status attributes are assigned, then the swing request decides.\<close>

lemma private_update_status_run:
  assumes stat: "bridge_make_request (''stat2 '' @ d_uid d) w = (Inr status_line, w1)"
    and fs: "re_split_ws (strip status_line) = fs" "length fs = 8" "fs ! 2 \<noteq> []"
    and th: "py_float (butlast (fs ! 2)) = Some th"
    and t: "py_float (replace '','' ''.'' (butlast (fs ! 3))) = Some t"
    and d4: "d4 = d\<lparr>d_is_on := Some (fs ! 1 = ''ON''),
                     d_unit := Some (if last (fs ! 2) = CHR ''F''
                                     then ''imperial'' else ''celsius''),
                     d_thermostat := Some th, d_temperature := Some t,
                     d_fan_speed := Some (lower (fs ! 4)),
                     d_mode := Some (lower (fs ! 5))\<rparr>"
  shows "private_update_status w d =
           (case bridge_make_request (''query '' @ d_uid d @ '' s'') w1 of
              (Inl e, w2) \<Rightarrow> (Inl e, w2, d4)
            | (Inr swing_line, w2) \<Rightarrow>
                (case decode_swing swing_line of
                   Inl e \<Rightarrow> (Inl e, w2, d4\<lparr>d_swing_mode := Some None\<rparr>)
                 | Inr name \<Rightarrow>
                     (Inr (), snd (time_time w2),
                      d4\<lparr>d_swing_mode := Some name, d_last_refresh_time := clock w2 0\<rparr>)))"
  using assms
  by (auto simp: private_update_status_def Let_def time_time_def
           split: prod.splits sum.splits)

text \<open>A successful refresh has made both exchanges and has assigned all seven attributes
  from them.\<close>

lemma private_update_status_success:
  assumes ok: "outcome (private_update_status w d) = Inr u"
  shows "\<exists>status_line w1 swing_line w2 fs th t name.
           bridge_make_request (''stat2 '' @ d_uid d) w = (Inr status_line, w1)
         \<and> bridge_make_request (''query '' @ d_uid d @ '' s'') w1 = (Inr swing_line, w2)
         \<and> fs = re_split_ws (strip status_line) \<and> length fs = 8
         \<and> py_float (butlast (fs ! 2)) = Some th
         \<and> py_float (replace '','' ''.'' (butlast (fs ! 3))) = Some t
         \<and> decode_swing swing_line = Inr name
         \<and> device_after (private_update_status w d) =
             d\<lparr>d_is_on := Some (fs ! 1 = ''ON''),
               d_unit := Some (if last (fs ! 2) = CHR ''F''
                               then ''imperial'' else ''celsius''),
               d_thermostat := Some th, d_temperature := Some t,
               d_fan_speed := Some (lower (fs ! 4)),
               d_mode := Some (lower (fs ! 5)),
               d_swing_mode := Some name, d_last_refresh_time := clock w 0\<rparr>
         \<and> world_after (private_update_status w d) = snd (time_time w2)"
proof -
  obtain r1 w1 where 1: "bridge_make_request (''stat2 '' @ d_uid d) w = (r1, w1)"
    by (cases "bridge_make_request (''stat2 '' @ d_uid d) w")
  obtain status_line where r1: "r1 = Inr status_line"
    using ok 1 by (cases r1) (auto simp: private_update_status_def)
  define fs where "fs = re_split_ws (strip status_line)"
  have len: "length fs = 8"
    using ok 1 r1 fs_def
    by (auto simp: private_update_status_def Let_def split: if_splits)
  have nonempty: "fs ! 2 \<noteq> []"
    using ok 1 r1 fs_def len
    by (auto simp: private_update_status_def Let_def split: if_splits)
  obtain th where th: "py_float (butlast (fs ! 2)) = Some th"
    using ok 1 r1 fs_def len nonempty
    by (cases "py_float (butlast (fs ! 2))") (auto simp: private_update_status_def Let_def)
  obtain t where t: "py_float (replace '','' ''.'' (butlast (fs ! 3))) = Some t"
    using ok 1 r1 fs_def len nonempty th
    by (cases "py_float (replace '','' ''.'' (butlast (fs ! 3)))")
       (auto simp: private_update_status_def Let_def)
  define d4 where "d4 = d\<lparr>d_is_on := Some (fs ! 1 = ''ON''),
                     d_unit := Some (if last (fs ! 2) = CHR ''F''
                                     then ''imperial'' else ''celsius''),
                     d_thermostat := Some th, d_temperature := Some t,
                     d_fan_speed := Some (lower (fs ! 4)),
                     d_mode := Some (lower (fs ! 5))\<rparr>"
  note run = private_update_status_run [OF 1 [unfolded r1] fs_def [symmetric] len nonempty th t d4_def]
  obtain r2 w2 where 2: "bridge_make_request (''query '' @ d_uid d @ '' s'') w1 = (r2, w2)"
    by (cases "bridge_make_request (''query '' @ d_uid d @ '' s'') w1")
  obtain swing_line where r2: "r2 = Inr swing_line"
    using ok run 2 by (cases r2) auto
  obtain name where name: "decode_swing swing_line = Inr name"
    using ok run 2 r2 by (cases "decode_swing swing_line") auto
  have "clock w2 0 = clock w 0"
    using bridge_make_request_effect(2) [OF 1] bridge_make_request_effect(2) [OF 2] by simp
  then have "private_update_status w d =
          (Inr (), snd (time_time w2),
           d4\<lparr>d_swing_mode := Some name, d_last_refresh_time := clock w 0\<rparr>)"
    using run 2 r2 name by simp
  then show ?thesis
    using 1 r1 2 r2 fs_def len th t name d4_def by simp
qed

lemma private_update_status_written:
  assumes "outcome (private_update_status w d) = Inr u"
  shows "written (world_after (private_update_status w d)) =
           written w @ [CRLF, ''stat2 '' @ d_uid d @ CRLF, CRLF, ''query '' @ d_uid d @ '' s'' @ CRLF]"
proof -
  from private_update_status_success [OF assms]
  obtain status_line w1 swing_line w2 where
    1: "bridge_make_request (''stat2 '' @ d_uid d) w = (Inr status_line, w1)" and
    2: "bridge_make_request (''query '' @ d_uid d @ '' s'') w1 = (Inr swing_line, w2)" and
    3: "world_after (private_update_status w d) = snd (time_time w2)"
    by blast
  have "written w1 = written w @ [CRLF, (''stat2 '' @ d_uid d) @ CRLF]"
    using bridge_make_request_effect(3) [OF 1] by simp
  moreover have "written w2 = written w1 @ [CRLF, (''query '' @ d_uid d @ '' s'') @ CRLF]"
    using bridge_make_request_effect(3) [OF 2] by simp
  ultimately show ?thesis
    using 3 by (simp add: time_time_def)
qed

subsection \<open>The example exchange\<close>

lemma example_fields:
  "re_split_ws (strip (example_status_line @ CRLF))
     = [''101'', ''OFF'', ''32C'', ''04,93C'', ''Low'', ''Dry'', ''OK'', ''1'']"
  by (simp add: example_status_line_def re_split_ws_def strip_def isspace_def
        CRLF_def CR_def LF_def)

lemma literal_fields:
  "re_split_ws ''101 OFF 32C 04,93C Low  Dry  OK 1''
     = [''101'', ''OFF'', ''32C'', ''04,93C'', ''Low'', ''Dry'', ''OK'', ''1'']"
  by (simp add: re_split_ws_def isspace_def)

lemma float_32: "py_float ''32'' = Some (Finite 32)"
  by (simp add: py_float_def float_strip_def float_space_def is_digit_def split_sign_def lower_def
        lower_char_def float_decimal_def digits_val_def scale10_def)

lemma float_0493: "py_float (replace '','' ''.'' ''04,93'') = Some (Finite (493 / 100))"
  by (simp add: py_float_def float_strip_def float_space_def is_digit_def split_sign_def lower_def
        lower_char_def float_decimal_def digits_val_def scale10_def)

lemma lower_Low: "lower ''Low'' = ''low''"
  by code_simp

lemma lower_Dry: "lower ''Dry'' = ''dry''"
  by code_simp

lemma example_stat2:
  assumes "d_uid d = ''101''"
  shows "bridge_make_request (''stat2 '' @ d_uid d) (status_then ws swing_body) =
     (Inr (example_status_line @ CRLF),
      (status_then ws swing_body)\<lparr>link := (\<lambda>n. answers swing_body),
                                   written := ws @ [CRLF, ''stat2 101'' @ CRLF]\<rparr>)"
proof -
  have "link (status_then ws swing_body) 0 = answers example_status_line"
    by (simp add: status_then_def)
  moreover have "is_ascii (''stat2 '' @ d_uid d)"
    using assms by simp
  ultimately show ?thesis
    using bridge_make_request_answers [OF _ _ is_ascii_example_status_line] assms
    by (simp add: status_then_def)
qed

lemma example_query:
  assumes "is_ascii swing_body"
  shows "bridge_make_request ''query 101 s''
           ((status_then ws swing_body)\<lparr>link := (\<lambda>n. answers swing_body),
                                        written := ws @ [CRLF, ''stat2 101'' @ CRLF]\<rparr>) =
         (Inr (swing_body @ CRLF),
          (status_then ws swing_body)\<lparr>link := (\<lambda>n. answers swing_body),
             written := ws @ [CRLF, ''stat2 101'' @ CRLF, CRLF, ''query 101 s'' @ CRLF]\<rparr>)"
proof -
  have "is_ascii ''query 101 s''"
    by simp
  then show ?thesis
    using bridge_make_request_answers [OF _ _ assms, of _ "''query 101 s''"]
    by simp
qed

text \<open>The refresh of unit 101 against \<open>status_then ws swing_body\<close>.\<close>

lemma refresh_101:
  assumes uid: "d_uid d = ''101''" and "is_ascii swing_body"
  shows "private_update_status (status_then ws swing_body) d =
           (case decode_swing (swing_body @ CRLF) of
              Inl e \<Rightarrow>
                (Inl e,
                 (status_then ws swing_body)\<lparr>link := (\<lambda>n. answers swing_body),
                    written := ws @ [CRLF, ''stat2 101'' @ CRLF, CRLF, ''query 101 s'' @ CRLF]\<rparr>,
                 d\<lparr>d_is_on := Some False, d_unit := Some ''celsius'',
                   d_thermostat := Some (Finite 32),
                   d_temperature := Some (Finite (493 / 100)), d_fan_speed := Some ''low'',
                   d_mode := Some ''dry'', d_swing_mode := Some None\<rparr>)
            | Inr name \<Rightarrow>
                (Inr (),
                 (status_then ws swing_body)\<lparr>link := (\<lambda>n. answers swing_body),
                    written := ws @ [CRLF, ''stat2 101'' @ CRLF, CRLF, ''query 101 s'' @ CRLF]\<rparr>,
                 d\<lparr>d_is_on := Some False, d_unit := Some ''celsius'',
                   d_thermostat := Some (Finite 32),
                   d_temperature := Some (Finite (493 / 100)), d_fan_speed := Some ''low'',
                   d_mode := Some ''dry'', d_swing_mode := Some name,
                   d_last_refresh_time := 1000\<rparr>))"
proof -
  have th: "py_float (butlast ([''101'', ''OFF'', ''32C'', ''04,93C'', ''Low'', ''Dry'', ''OK'', ''1''] ! 2))
              = Some (Finite 32)"
    using float_32 by simp
  have t: "py_float (replace '','' ''.''
              (butlast ([''101'', ''OFF'', ''32C'', ''04,93C'', ''Low'', ''Dry'', ''OK'', ''1''] ! 3)))
              = Some (Finite (493 / 100))"
    using float_0493 by simp
  show ?thesis
    using private_update_status_run [OF example_stat2 [OF uid] example_fields _ _ th t refl]
      example_query [OF assms(2)] lower_Low lower_Dry uid
    by (simp add: time_time_def status_then_def split: sum.splits)
qed

lemma time_time_status_then: "snd (time_time (status_then ws b)) = status_then ws b"
  by (simp add: time_time_def status_then_def)

lemma decode_swing_h: "decode_swing (''h'' @ CRLF) = Inr (Some ''horizontal'')"
  by (simp add: decode_swing_def strip_def isspace_def CRLF_def CR_def LF_def
        SWING_CHAR_TO_NAME_def)

lemma decode_swing_x: "decode_swing (''x'' @ CRLF) = Inl (KeyError ''x'')"
  by (simp add: decode_swing_def strip_def isspace_def CRLF_def CR_def LF_def
        SWING_CHAR_TO_NAME_def)

lemma strip_example: "strip (example_status_line @ CRLF) = ''101 OFF 32C 04,93C Low  Dry  OK 1''"
  by (simp add: example_status_line_def strip_def isspace_def CRLF_def CR_def LF_def)

lemma py_float_empty: "py_float [] = None"
  by (simp add: py_float_def float_strip_def split_sign_def lower_def float_decimal_def)

text \<open>
  C2. A refresh whose status request returns the line
  \<^verbatim>\<open>101 OFF 32C 04,93C Low  Dry  OK 1\<close> (surrounding whitespace aside, which the source
  strips) leaves the device with is_on false, unit celsius, thermostat 32.0, temperature
  4.93, fan speed "low" and mode "dry", whatever the swing request does afterwards. In
  general, for a line of 8 fields whose two numbers convert: is_on is whether field 1 is
  exactly \<^verbatim>\<open>ON\<close>; the unit is imperial if field 2 ends with \<^verbatim>\<open>F\<close> and celsius otherwise;
  the thermostat is the number in field 2 without its last character; the temperature is
  the number in field 3 without its last character and with commas turned into points;
  fan speed and mode are fields 4 and 5 in lower case.
\<close>

theorem parses_example_status_line:
  assumes "fst (bridge_make_request (''stat2 '' @ d_uid d) w) = Inr status_line"
  shows "(strip status_line = ''101 OFF 32C 04,93C Low  Dry  OK 1'' \<longrightarrow>
            d_is_on (device_after (private_update_status w d)) = Some False
          \<and> d_unit (device_after (private_update_status w d)) = Some ''celsius''
          \<and> d_thermostat (device_after (private_update_status w d)) = Some (Finite 32)
          \<and> d_temperature (device_after (private_update_status w d))
              = Some (Finite (493 / 100))
          \<and> d_fan_speed (device_after (private_update_status w d)) = Some ''low''
          \<and> d_mode (device_after (private_update_status w d)) = Some ''dry'')
       \<and> (\<forall>fs th t. fs = re_split_ws (strip status_line) \<longrightarrow> length fs = 8 \<longrightarrow>
            py_float (butlast (fs ! 2)) = Some th \<longrightarrow>
            py_float (replace '','' ''.'' (butlast (fs ! 3))) = Some t \<longrightarrow>
              d_is_on (device_after (private_update_status w d)) = Some (fs ! 1 = ''ON'')
            \<and> d_unit (device_after (private_update_status w d))
                = Some (if last (fs ! 2) = CHR ''F'' then ''imperial'' else ''celsius'')
            \<and> d_thermostat (device_after (private_update_status w d)) = Some th
            \<and> d_temperature (device_after (private_update_status w d)) = Some t
            \<and> d_fan_speed (device_after (private_update_status w d)) = Some (lower (fs ! 4))
            \<and> d_mode (device_after (private_update_status w d)) = Some (lower (fs ! 5)))"
proof -
  obtain w1 where 1: "bridge_make_request (''stat2 '' @ d_uid d) w = (Inr status_line, w1)"
    using assms by (cases "bridge_make_request (''stat2 '' @ d_uid d) w") simp
  have general: "d_is_on (device_after (private_update_status w d)) = Some (fs ! 1 = ''ON'')
            \<and> d_unit (device_after (private_update_status w d))
                = Some (if last (fs ! 2) = CHR ''F'' then ''imperial'' else ''celsius'')
            \<and> d_thermostat (device_after (private_update_status w d)) = Some th
            \<and> d_temperature (device_after (private_update_status w d)) = Some t
            \<and> d_fan_speed (device_after (private_update_status w d)) = Some (lower (fs ! 4))
            \<and> d_mode (device_after (private_update_status w d)) = Some (lower (fs ! 5))"
    if fs: "fs = re_split_ws (strip status_line)" and len: "length fs = 8"
      and th: "py_float (butlast (fs ! 2)) = Some th"
      and t: "py_float (replace '','' ''.'' (butlast (fs ! 3))) = Some t"
    for fs th t
  proof -
    have ne: "fs ! 2 \<noteq> []"
      using th py_float_empty by auto
    show ?thesis
      using private_update_status_run [OF 1 fs [symmetric] len ne th t refl]
      by (simp add: time_time_def split: prod.splits sum.splits)
  qed
  let ?fs = "[''101'', ''OFF'', ''32C'', ''04,93C'', ''Low'', ''Dry'', ''OK'', ''1'']"
  have th: "py_float (butlast (?fs ! 2)) = Some (Finite 32)"
    using float_32 by simp
  have t: "py_float (replace '','' ''.'' (butlast (?fs ! 3))) = Some (Finite (493 / 100))"
    using float_0493 by simp
  have "d_is_on (device_after (private_update_status w d)) = Some False
          \<and> d_unit (device_after (private_update_status w d)) = Some ''celsius''
          \<and> d_thermostat (device_after (private_update_status w d)) = Some (Finite 32)
          \<and> d_temperature (device_after (private_update_status w d))
              = Some (Finite (493 / 100))
          \<and> d_fan_speed (device_after (private_update_status w d)) = Some ''low''
          \<and> d_mode (device_after (private_update_status w d)) = Some ''dry''"
    if "strip status_line = ''101 OFF 32C 04,93C Low  Dry  OK 1''"
  proof -
    have fs: "?fs = re_split_ws (strip status_line)"
      using that literal_fields by simp
    show ?thesis
      using general [OF fs _ th t] lower_Low lower_Dry by simp
  qed
  with general show ?thesis
    by blast
qed

theorem parses_example_status_line_witness:
  "d_is_on (device_after (private_update_status example_world example_device)) = Some False
   \<and> d_unit (device_after (private_update_status example_world example_device)) = Some ''celsius''
   \<and> d_thermostat (device_after (private_update_status example_world example_device))
       = Some (Finite 32)
   \<and> d_temperature (device_after (private_update_status example_world example_device))
       = Some (Finite (493 / 100))
   \<and> d_fan_speed (device_after (private_update_status example_world example_device)) = Some ''low''
   \<and> d_mode (device_after (private_update_status example_world example_device)) = Some ''dry''"
proof -
  have "fst (bridge_make_request (''stat2 '' @ d_uid example_device) example_world)
          = Inr (example_status_line @ CRLF)"
    using example_stat2 [of example_device "[]" "''h''"]
    by (simp add: example_world_def example_device_def CoolMasterDevice_def)
  then show ?thesis
    using parses_example_status_line [of example_device example_world] strip_example
    by blast
qed

text \<open>
  C1 as stated fails. Unit 101 holds a snapshot (on, cool, high, swing auto) and has
  auto-update off; a refresh reads a good status line and then a swing character that is
  not in the table. The refresh raises \<^verbatim>\<open>KeyError\<close>, and afterwards the accessors return
  the new on/off flag and mode next to a swing mode that is neither the old one nor one
  the bridge sent.
\<close>

theorem refresh_partial_update:
  "outcome (private_update_status (status_then [] ''x'') manual_device) = Inl (KeyError ''x'')
   \<and> outcome (is_on (status_then [] ''x'') manual_device) = Inr True
   \<and> outcome (is_on (world_after (private_update_status (status_then [] ''x'') manual_device))
                (device_after (private_update_status (status_then [] ''x'') manual_device)))
       = Inr False
   \<and> outcome (mode (status_then [] ''x'') manual_device) = Inr ''cool''
   \<and> outcome (mode (world_after (private_update_status (status_then [] ''x'') manual_device))
                (device_after (private_update_status (status_then [] ''x'') manual_device)))
       = Inr ''dry''
   \<and> outcome (swing (status_then [] ''x'') manual_device) = Inr (Some ''auto'')
   \<and> outcome (swing (world_after (private_update_status (status_then [] ''x'') manual_device))
                (device_after (private_update_status (status_then [] ''x'') manual_device)))
       = Inr None"
proof -
  have "d_uid manual_device = ''101''"
    by (simp add: manual_device_def cached_device_def)
  then show ?thesis
    using refresh_101 [of manual_device "''x''" "[]"] decode_swing_x
    by (simp add: is_on_def mode_def swing_def autoupdate_property_def update_if_needed_def
          attr_def manual_device_def cached_device_def)
qed

text \<open>
  C1 (as amended). A refresh assigns the cached fields one after the other. It returns
  normally only after both the status request and the swing request have succeeded, and
  then all seven fields hold what these two responses decode to and the timestamp is the
  clock reading. If the status request fails, or its field count is not 8, the error
  reaches the caller and the device is untouched. On every failure the error reaches the
  caller and the last-refresh timestamp keeps its previous value. When the status line
  has decoded and the swing step then fails, the six status fields keep their new values;
  the swing mode is the old one after a failed swing request and none after an
  unrecognized swing character.
\<close>

theorem refresh_commit:
  "(outcome (private_update_status w d) = Inr () \<longrightarrow>
      (\<exists>status_line w1 swing_line w2 fs th t name.
           bridge_make_request (''stat2 '' @ d_uid d) w = (Inr status_line, w1)
         \<and> bridge_make_request (''query '' @ d_uid d @ '' s'') w1 = (Inr swing_line, w2)
         \<and> fs = re_split_ws (strip status_line) \<and> length fs = 8
         \<and> py_float (butlast (fs ! 2)) = Some th
         \<and> py_float (replace '','' ''.'' (butlast (fs ! 3))) = Some t
         \<and> decode_swing swing_line = Inr name
         \<and> device_after (private_update_status w d) =
             d\<lparr>d_is_on := Some (fs ! 1 = ''ON''),
               d_unit := Some (if last (fs ! 2) = CHR ''F''
                               then ''imperial'' else ''celsius''),
               d_thermostat := Some th, d_temperature := Some t,
               d_fan_speed := Some (lower (fs ! 4)),
               d_mode := Some (lower (fs ! 5)),
               d_swing_mode := Some name, d_last_refresh_time := clock w 0\<rparr>))
   \<and> (\<forall>e. outcome (private_update_status w d) = Inl e \<longrightarrow>
          d_last_refresh_time (device_after (private_update_status w d))
            = d_last_refresh_time d)
   \<and> (\<forall>e. fst (bridge_make_request (''stat2 '' @ d_uid d) w) = Inl e \<longrightarrow>
          outcome (private_update_status w d) = Inl e
        \<and> device_after (private_update_status w d) = d)
   \<and> (\<forall>status_line. fst (bridge_make_request (''stat2 '' @ d_uid d) w) = Inr status_line \<longrightarrow>
          length (re_split_ws (strip status_line)) \<noteq> 8 \<longrightarrow>
          outcome (private_update_status w d)
            = Inl (UnexpectedStatusLine (re_split_ws (strip status_line)))
        \<and> device_after (private_update_status w d) = d)
   \<and> (\<forall>status_line w1 fs th t.
          bridge_make_request (''stat2 '' @ d_uid d) w = (Inr status_line, w1) \<longrightarrow>
          fs = re_split_ws (strip status_line) \<longrightarrow> length fs = 8 \<longrightarrow>
          py_float (butlast (fs ! 2)) = Some th \<longrightarrow>
          py_float (replace '','' ''.'' (butlast (fs ! 3))) = Some t \<longrightarrow>
            (\<forall>e. fst (bridge_make_request (''query '' @ d_uid d @ '' s'') w1) = Inl e \<longrightarrow>
               outcome (private_update_status w d) = Inl e
             \<and> device_after (private_update_status w d) =
                 d\<lparr>d_is_on := Some (fs ! 1 = ''ON''),
                   d_unit := Some (if last (fs ! 2) = CHR ''F''
                                   then ''imperial'' else ''celsius''),
                   d_thermostat := Some th, d_temperature := Some t,
                   d_fan_speed := Some (lower (fs ! 4)),
                   d_mode := Some (lower (fs ! 5))\<rparr>)
          \<and> (\<forall>swing_line e.
               fst (bridge_make_request (''query '' @ d_uid d @ '' s'') w1) = Inr swing_line \<longrightarrow>
               decode_swing swing_line = Inl e \<longrightarrow>
               outcome (private_update_status w d) = Inl e
             \<and> device_after (private_update_status w d) =
                 d\<lparr>d_is_on := Some (fs ! 1 = ''ON''),
                   d_unit := Some (if last (fs ! 2) = CHR ''F''
                                   then ''imperial'' else ''celsius''),
                   d_thermostat := Some th, d_temperature := Some t,
                   d_fan_speed := Some (lower (fs ! 4)),
                   d_mode := Some (lower (fs ! 5)),
                   d_swing_mode := Some None\<rparr>))"
proof -
  have success: "\<exists>status_line w1 swing_line w2 fs th t name.
           bridge_make_request (''stat2 '' @ d_uid d) w = (Inr status_line, w1)
         \<and> bridge_make_request (''query '' @ d_uid d @ '' s'') w1 = (Inr swing_line, w2)
         \<and> fs = re_split_ws (strip status_line) \<and> length fs = 8
         \<and> py_float (butlast (fs ! 2)) = Some th
         \<and> py_float (replace '','' ''.'' (butlast (fs ! 3))) = Some t
         \<and> decode_swing swing_line = Inr name
         \<and> device_after (private_update_status w d) =
             d\<lparr>d_is_on := Some (fs ! 1 = ''ON''),
               d_unit := Some (if last (fs ! 2) = CHR ''F''
                               then ''imperial'' else ''celsius''),
               d_thermostat := Some th, d_temperature := Some t,
               d_fan_speed := Some (lower (fs ! 4)),
               d_mode := Some (lower (fs ! 5)),
               d_swing_mode := Some name, d_last_refresh_time := clock w 0\<rparr>"
    if "outcome (private_update_status w d) = Inr ()"
    using private_update_status_success [OF that] by blast
  have failure: "d_last_refresh_time (device_after (private_update_status w d))
               = d_last_refresh_time d"
    if "outcome (private_update_status w d) = Inl e" for e
    using that by (rule private_update_status_failure(1))
  have stat: "outcome (private_update_status w d) = Inl e
        \<and> device_after (private_update_status w d) = d"
    if "fst (bridge_make_request (''stat2 '' @ d_uid d) w) = Inl e" for e
    using private_update_status_stat_fails [OF that] by simp
  have count: "outcome (private_update_status w d)
            = Inl (UnexpectedStatusLine (re_split_ws (strip status_line)))
        \<and> device_after (private_update_status w d) = d"
    if "fst (bridge_make_request (''stat2 '' @ d_uid d) w) = Inr status_line"
      and "length (re_split_ws (strip status_line)) \<noteq> 8" for status_line
    using private_update_status_bad_count [OF that] by simp
  have swing: "(\<forall>e. fst (bridge_make_request (''query '' @ d_uid d @ '' s'') w1) = Inl e \<longrightarrow>
               outcome (private_update_status w d) = Inl e
             \<and> device_after (private_update_status w d) =
                 d\<lparr>d_is_on := Some (fs ! 1 = ''ON''),
                   d_unit := Some (if last (fs ! 2) = CHR ''F''
                                   then ''imperial'' else ''celsius''),
                   d_thermostat := Some th, d_temperature := Some t,
                   d_fan_speed := Some (lower (fs ! 4)),
                   d_mode := Some (lower (fs ! 5))\<rparr>)
          \<and> (\<forall>swing_line e.
               fst (bridge_make_request (''query '' @ d_uid d @ '' s'') w1) = Inr swing_line \<longrightarrow>
               decode_swing swing_line = Inl e \<longrightarrow>
               outcome (private_update_status w d) = Inl e
             \<and> device_after (private_update_status w d) =
                 d\<lparr>d_is_on := Some (fs ! 1 = ''ON''),
                   d_unit := Some (if last (fs ! 2) = CHR ''F''
                                   then ''imperial'' else ''celsius''),
                   d_thermostat := Some th, d_temperature := Some t,
                   d_fan_speed := Some (lower (fs ! 4)),
                   d_mode := Some (lower (fs ! 5)),
                   d_swing_mode := Some None\<rparr>)"
    if 1: "bridge_make_request (''stat2 '' @ d_uid d) w = (Inr status_line, w1)"
      and fs: "fs = re_split_ws (strip status_line)" and len: "length fs = 8"
      and th: "py_float (butlast (fs ! 2)) = Some th"
      and t: "py_float (replace '','' ''.'' (butlast (fs ! 3))) = Some t"
    for status_line w1 fs th t
  proof -
    have ne: "fs ! 2 \<noteq> []"
      using th py_float_empty by auto
    show ?thesis
      using private_update_status_run [OF 1 fs [symmetric] len ne th t refl]
      by (auto split: prod.splits sum.splits)
  qed
  show ?thesis
    using success failure stat count swing by blast
qed

theorem refresh_commit_witness:
  "outcome (private_update_status example_world example_device) = Inr ()
   \<and> d_last_refresh_time (device_after (private_update_status example_world example_device))
       = 1000"
proof -
  have uid: "d_uid example_device = ''101''"
    by (simp add: example_device_def CoolMasterDevice_def)
  have ok: "outcome (private_update_status example_world example_device) = Inr ()"
    using refresh_101 [OF uid, of "''h''" "[]"] decode_swing_h
    by (simp add: example_world_def)
  have "clock example_world 0 = 1000"
    by (simp add: example_world_def status_then_def)
  then show ?thesis
    using ok refresh_commit [of example_world example_device] by auto
qed

text \<open>
  C5. When the status request of a refresh returns a line whose number of
  whitespace-separated fields is not 8, the refresh fails with the unexpected status line
  error (carrying the fields) and the device is exactly as before; for 8 fields that error
  is not raised.
\<close>

theorem status_field_count:
  assumes "fst (bridge_make_request (''stat2 '' @ d_uid d) w) = Inr status_line"
  shows "(length (re_split_ws (strip status_line)) \<noteq> 8 \<longrightarrow>
            outcome (private_update_status w d)
              = Inl (UnexpectedStatusLine (re_split_ws (strip status_line)))
          \<and> device_after (private_update_status w d) = d)
       \<and> (length (re_split_ws (strip status_line)) = 8 \<longrightarrow>
            (\<forall>fs. outcome (private_update_status w d) \<noteq> Inl (UnexpectedStatusLine fs)))"
  using private_update_status_bad_count [OF assms]
    private_update_status_other_error [OF assms]
  by simp

theorem status_field_count_witness:
  "outcome (private_update_status (always_reads ''101 OFF'') manual_device)
     = Inl (UnexpectedStatusLine [''101'', ''OFF''])
   \<and> device_after (private_update_status (always_reads ''101 OFF'') manual_device)
       = manual_device
   \<and> outcome (private_update_status example_world example_device)
       \<noteq> Inl (UnexpectedStatusLine [''101''])"
proof -
  have uid: "d_uid manual_device = ''101''"
    by (simp add: manual_device_def cached_device_def)
  have "response_body ''101 OFF'' = ''101 OFF''"
    by (simp add: response_body_def endswith_def CRLF_def)
  then have 1: "fst (bridge_make_request (''stat2 '' @ d_uid manual_device)
                  (always_reads ''101 OFF'')) = Inr ''101 OFF''"
    using bridge_make_request_reads [of "always_reads ''101 OFF''" "''101 OFF''" "''stat2 101''"]
    by (simp add: uid always_reads_def)
  have 2: "re_split_ws (strip ''101 OFF'') = [''101'', ''OFF'']"
    by (simp add: re_split_ws_def strip_def isspace_def)
  have 3: "fst (bridge_make_request (''stat2 '' @ d_uid example_device) example_world)
             = Inr (example_status_line @ CRLF)"
    using example_stat2 [of example_device "[]" "''h''"]
    by (simp add: example_world_def example_device_def CoolMasterDevice_def)
  show ?thesis
    using status_field_count [OF 1] status_field_count [OF 3] 2 example_fields by simp
qed

text \<open>
  C6 as stated fails in its count: the name table has six swing names, all different,
  not five.
\<close>

theorem swing_names_count:
  "map fst SWING_NAME_TO_CHAR = [''auto'', ''horizontal'', ''30'', ''45'', ''60'', ''vertical'']
   \<and> distinct (map fst SWING_NAME_TO_CHAR)
   \<and> length (map fst SWING_NAME_TO_CHAR) = 6"
  by (simp add: SWING_NAME_TO_CHAR_def)

text \<open>
  C6 (as amended). The swing character \<^verbatim>\<open>h\<close> decodes to "horizontal", the character
  \<^verbatim>\<open>-\<close> to none, and an empty swing response to none; going from a name to its character
  and back gives the name again for each of the six names of the name table: auto,
  horizontal, 30, 45, 60 and vertical.
\<close>

theorem swing_tables:
  "map_of SWING_CHAR_TO_NAME ''h'' = Some (Some ''horizontal'')
   \<and> decode_swing ''h'' = Inr (Some ''horizontal'')
   \<and> map_of SWING_CHAR_TO_NAME ''-'' = Some None
   \<and> decode_swing ''-'' = Inr None
   \<and> decode_swing [] = Inr None
   \<and> map fst SWING_NAME_TO_CHAR = [''auto'', ''horizontal'', ''30'', ''45'', ''60'', ''vertical'']
   \<and> swing_round_trip ''auto'' = Some (Some ''auto'')
   \<and> swing_round_trip ''horizontal'' = Some (Some ''horizontal'')
   \<and> swing_round_trip ''30'' = Some (Some ''30'')
   \<and> swing_round_trip ''45'' = Some (Some ''45'')
   \<and> swing_round_trip ''60'' = Some (Some ''60'')
   \<and> swing_round_trip ''vertical'' = Some (Some ''vertical'')"
  by (simp add: decode_swing_def SWING_CHAR_TO_NAME_def SWING_NAME_TO_CHAR_def
        swing_round_trip_def strip_def isspace_def)

subsection \<open>Accessors and commands\<close>

text \<open>
  C3. For an accessor of a device with auto-update on: when the clock reads less than 1
  past the last refresh, the accessor returns what its getter reads from the cached
  device, the device is unchanged, nothing is written to the link and no reply is
  consumed; when it reads 1 or more past the last refresh, the accessor runs the refresh
  once and then the getter, and whenever it returns a value the link has seen exactly one
  status exchange followed by one swing exchange.
\<close>

theorem accessor_staleness:
  assumes "d_auto_update d"
  shows "(clock w 0 - d_last_refresh_time d < 1 \<longrightarrow>
            outcome (autoupdate_property func w d) = func d
          \<and> device_after (autoupdate_property func w d) = d
          \<and> written (world_after (autoupdate_property func w d)) = written w
          \<and> link (world_after (autoupdate_property func w d)) = link w)
       \<and> (1 \<le> clock w 0 - d_last_refresh_time d \<longrightarrow>
            autoupdate_property func w d =
              (case private_update_status (snd (time_time w)) d of
                 (Inl e, w1, d1) \<Rightarrow> (Inl e, w1, d1)
               | (Inr u, w1, d1) \<Rightarrow> (func d1, w1, d1))
          \<and> (\<forall>v. outcome (autoupdate_property func w d) = Inr v \<longrightarrow>
                 written (world_after (autoupdate_property func w d)) =
                   written w @ [CRLF, ''stat2 '' @ d_uid d @ CRLF,
                                CRLF, ''query '' @ d_uid d @ '' s'' @ CRLF]))"
proof (intro conjI impI allI)
  assume fresh: "clock w 0 - d_last_refresh_time d < 1"
  then have "autoupdate_property func w d = (func d, snd (time_time w), d)"
    using assms by (simp add: autoupdate_property_def update_if_needed_def time_time_def)
  then show "outcome (autoupdate_property func w d) = func d"
    and "device_after (autoupdate_property func w d) = d"
    and "written (world_after (autoupdate_property func w d)) = written w"
    and "link (world_after (autoupdate_property func w d)) = link w"
    by (simp_all add: time_time_def)
next
  assume stale: "1 \<le> clock w 0 - d_last_refresh_time d"
  then show run: "autoupdate_property func w d =
              (case private_update_status (snd (time_time w)) d of
                 (Inl e, w1, d1) \<Rightarrow> (Inl e, w1, d1)
               | (Inr u, w1, d1) \<Rightarrow> (func d1, w1, d1))"
    using assms by (simp add: autoupdate_property_def update_if_needed_def time_time_def)
  fix v assume v: "outcome (autoupdate_property func w d) = Inr v"
  obtain r w1 d1 where p: "private_update_status (snd (time_time w)) d = (r, w1, d1)"
    by (cases "private_update_status (snd (time_time w)) d")
  have "r = Inr ()"
    using v run p by (cases r) auto
  then have "written w1 = written (snd (time_time w)) @
               [CRLF, ''stat2 '' @ d_uid d @ CRLF, CRLF, ''query '' @ d_uid d @ '' s'' @ CRLF]"
    using private_update_status_written [of "snd (time_time w)" d "()"] p by simp
  then show "written (world_after (autoupdate_property func w d)) =
               written w @ [CRLF, ''stat2 '' @ d_uid d @ CRLF,
                            CRLF, ''query '' @ d_uid d @ '' s'' @ CRLF]"
    using run p \<open>r = Inr ()\<close> by (simp add: time_time_def)
qed

theorem accessor_staleness_witness:
  "outcome (fan_speed example_world (cached_device (1999 / 2))) = Inr ''high''
   \<and> written (world_after (fan_speed example_world (cached_device (1999 / 2)))) = []
   \<and> outcome (fan_speed example_world (cached_device 999)) = Inr ''low''
   \<and> written (world_after (fan_speed example_world (cached_device 999)))
       = [CRLF, ''stat2 101'' @ CRLF, CRLF, ''query 101 s'' @ CRLF]"
proof -
  let ?get = "\<lambda>d. attr ''_fan_speed'' (d_fan_speed d)"
  have auto: "d_auto_update (cached_device t)" for t
    by (simp add: cached_device_def)
  have c: "clock example_world 0 = 1000" "written example_world = []"
    by (simp_all add: example_world_def status_then_def)
  have 1: "clock example_world 0 - d_last_refresh_time (cached_device (1999 / 2)) < 1"
    by (simp add: c cached_device_def)
  have 2: "1 \<le> clock example_world 0 - d_last_refresh_time (cached_device 999)"
    by (simp add: c cached_device_def)
  have r: "private_update_status (snd (time_time example_world)) (cached_device 999) =
             (Inr (),
              (status_then [] ''h'')\<lparr>link := (\<lambda>n. answers ''h''),
                 written := [] @ [CRLF, ''stat2 101'' @ CRLF, CRLF, ''query 101 s'' @ CRLF]\<rparr>,
              (cached_device 999)\<lparr>d_is_on := Some False, d_unit := Some ''celsius'',
                 d_thermostat := Some (Finite 32),
                 d_temperature := Some (Finite (493 / 100)), d_fan_speed := Some ''low'',
                 d_mode := Some ''dry'', d_swing_mode := Some (Some ''horizontal''),
                 d_last_refresh_time := 1000\<rparr>)"
    using refresh_101 [of "cached_device 999" "''h''" "[]"] decode_swing_h
    by (simp add: example_world_def time_time_status_then cached_device_def)
  have a: "outcome (fan_speed example_world (cached_device (1999 / 2))) = Inr ''high''
         \<and> written (world_after (fan_speed example_world (cached_device (1999 / 2)))) = []"
    using accessor_staleness [OF auto, of example_world "1999 / 2" ?get] 1 c
    by (simp add: fan_speed_def attr_def cached_device_def)
  have b: "outcome (fan_speed example_world (cached_device 999)) = Inr ''low''
         \<and> written (world_after (fan_speed example_world (cached_device 999)))
             = [CRLF, ''stat2 101'' @ CRLF, CRLF, ''query 101 s'' @ CRLF]"
    using accessor_staleness [OF auto, of example_world 999 ?get] 2 r
    by (simp add: fan_speed_def attr_def)
  show ?thesis
    using a b by simp
qed

lemma request_then_clear_ok:
  assumes "outcome (request_then_clear format_str w d) = Inr u"
  shows "device_after (request_then_clear format_str w d) = d\<lparr>d_last_refresh_time := 0\<rparr>"
  using assms
  by (auto simp: request_then_clear_def clear_status_def split: prod.splits sum.splits)

lemma request_then_clear_error:
  assumes "outcome (request_then_clear format_str w d) = Inl e"
  shows "e \<in> {SerialException, PromptNotFound, UnicodeEncodeError, UnicodeDecodeError}"
    and "device_after (request_then_clear format_str w d) = d"
  using assms
  by (auto simp: request_then_clear_def device_make_request_def
           split: prod.splits sum.splits dest: bridge_make_request_effect(4))

lemma request_then_clear_reads:
  assumes "link w 0 = Reads (CRLF @ ''>'') raw" and "is_ascii raw"
    and "is_ascii (replace ''UID'' (d_uid d) format_str)"
  shows "request_then_clear format_str w d =
           (Inr (),
            w\<lparr>link := (\<lambda>n. link w (Suc n)),
              written := written w @ [CRLF, replace ''UID'' (d_uid d) format_str @ CRLF]\<rparr>,
            d\<lparr>d_last_refresh_time := 0\<rparr>)"
  using bridge_make_request_reads [OF assms(1) assms(3) assms(2)]
  by (simp add: request_then_clear_def device_make_request_def clear_status_def)

lemma request_then_clear_not_encodable:
  assumes "link w 0 = Reads (CRLF @ ''>'') raw"
    and "\<not> is_ascii (replace ''UID'' (d_uid d) format_str)"
  shows "outcome (request_then_clear format_str w d) = Inl UnicodeEncodeError"
    and "device_after (request_then_clear format_str w d) = d"
    and "written (world_after (request_then_clear format_str w d)) = written w @ [CRLF]"
  using assms
  by (simp_all add: request_then_clear_def device_make_request_def bridge_make_request_def)

lemma mutating_command_ok:
  assumes "cmd \<in> set (mutating_commands a v)" and "outcome (cmd w d) = Inr ()"
  shows "device_after (cmd w d) = d\<lparr>d_last_refresh_time := 0\<rparr>"
proof -
  consider "cmd = turn_on" | "cmd = turn_off" | "cmd = set_mode a" | "cmd = set_fan_speed v"
    | "cmd = set_thermostat v" | "cmd = set_swing a"
    using assms(1) by (auto simp: mutating_commands_def)
  then show ?thesis
  proof cases
    case 1
    with assms(2) show ?thesis
      using request_then_clear_ok [of "''on UID''" w d] by (simp add: turn_on_def)
  next
    case 2
    with assms(2) show ?thesis
      using request_then_clear_ok [of "''off UID''" w d] by (simp add: turn_off_def)
  next
    case 3
    with assms(2) show ?thesis
      using request_then_clear_ok [of "m @ '' UID''" w d for m]
      by (simp add: set_mode_def split: if_splits pyarg.splits)
  next
    case 4
    with assms(2) show ?thesis
      using request_then_clear_ok [of "''fspeed UID '' @ v" w d] by (simp add: set_fan_speed_def)
  next
    case 5
    with assms(2) show ?thesis
      using request_then_clear_ok [of "''temp UID '' @ v" w d] by (simp add: set_thermostat_def)
  next
    case 6
    with assms(2) show ?thesis
      using request_then_clear_ok [of "''swing UID '' @ c" w d for c]
      by (simp add: set_swing_def split: sum.splits option.splits)
  qed
qed

text \<open>
  C7. After a mutating command that returned normally the device is the one before the
  command with its last-refresh timestamp set to zero. The next accessor call with
  auto-update on then runs a refresh, whatever the timestamp was before the command,
  provided the clock reads at least 1 (\<^verbatim>\<open>time.time()\<close> counts the seconds since 1970).
\<close>

theorem mutation_forces_refresh:
  assumes "cmd \<in> set (mutating_commands a v)" and "outcome (cmd w d) = Inr ()"
  shows "device_after (cmd w d) = d\<lparr>d_last_refresh_time := 0\<rparr>
       \<and> (d_auto_update d \<longrightarrow> 1 \<le> clock (world_after (cmd w d)) 0 \<longrightarrow>
            autoupdate_property func (world_after (cmd w d)) (device_after (cmd w d)) =
              (case private_update_status (snd (time_time (world_after (cmd w d))))
                      (device_after (cmd w d)) of
                 (Inl e, w1, d1) \<Rightarrow> (Inl e, w1, d1)
               | (Inr u, w1, d1) \<Rightarrow> (func d1, w1, d1)))"
  using mutating_command_ok [OF assms]
  by (simp add: autoupdate_property_def update_if_needed_def time_time_def)

lemma turn_on_example:
  assumes "d_uid d = ''101''"
  shows "turn_on command_then_status d =
           (Inr (), status_then [CRLF, ''on 101'' @ CRLF] ''h'', d\<lparr>d_last_refresh_time := 0\<rparr>)"
proof -
  have "link command_then_status 0 = Reads (CRLF @ ''>'') (''OK'' @ CRLF @ ''>'')"
    by (simp add: command_then_status_def)
  moreover have "is_ascii (''OK'' @ CRLF @ ''>'')"
    by simp
  moreover have "is_ascii (replace ''UID'' (d_uid d) ''on UID'')"
    using assms by simp
  ultimately show ?thesis
    using request_then_clear_reads [of command_then_status _ d "''on UID''"] assms
    by (simp add: turn_on_def command_then_status_def status_then_def)
qed

theorem mutation_forces_refresh_witness:
  "turn_on \<in> set (mutating_commands (Str ''auto'') ''auto'')
   \<and> outcome (turn_on command_then_status (cached_device 1000)) = Inr ()
   \<and> d_last_refresh_time (device_after (turn_on command_then_status (cached_device 1000))) = 0
   \<and> outcome (is_on (world_after (turn_on command_then_status (cached_device 1000)))
                (device_after (turn_on command_then_status (cached_device 1000)))) = Inr False
   \<and> written (world_after
        (is_on (world_after (turn_on command_then_status (cached_device 1000)))
               (device_after (turn_on command_then_status (cached_device 1000)))))
       = [CRLF, ''on 101'' @ CRLF, CRLF, ''stat2 101'' @ CRLF, CRLF, ''query 101 s'' @ CRLF]"
proof -
  let ?d = "cached_device 1000"
  let ?get = "\<lambda>d. attr ''_is_on'' (d_is_on d)"
  have uid: "d_uid ?d = ''101''" and auto: "d_auto_update ?d"
    by (simp_all add: cached_device_def)
  have mem: "turn_on \<in> set (mutating_commands (Str ''auto'') ''auto'')"
    by (simp add: mutating_commands_def)
  have ok: "outcome (turn_on command_then_status ?d) = Inr ()"
    by (simp add: turn_on_example [OF uid])
  have clk: "1 \<le> clock (world_after (turn_on command_then_status ?d)) 0"
    by (simp add: turn_on_example [OF uid] status_then_def)
  have r: "private_update_status (status_then [CRLF, ''on 101'' @ CRLF] ''h'')
             (?d\<lparr>d_last_refresh_time := 0\<rparr>) =
           (Inr (),
            (status_then [CRLF, ''on 101'' @ CRLF] ''h'')\<lparr>link := (\<lambda>n. answers ''h''),
               written := [CRLF, ''on 101'' @ CRLF]
                            @ [CRLF, ''stat2 101'' @ CRLF, CRLF, ''query 101 s'' @ CRLF]\<rparr>,
            ?d\<lparr>d_last_refresh_time := 0, d_is_on := Some False, d_unit := Some ''celsius'',
               d_thermostat := Some (Finite 32),
               d_temperature := Some (Finite (493 / 100)), d_fan_speed := Some ''low'',
               d_mode := Some ''dry'', d_swing_mode := Some (Some ''horizontal''),
               d_last_refresh_time := 1000\<rparr>)"
    using refresh_101 [of "?d\<lparr>d_last_refresh_time := 0\<rparr>" "''h''" "[CRLF, ''on 101'' @ CRLF]"]
      decode_swing_h uid
    by simp
  show ?thesis
    using mutation_forces_refresh [OF mem ok, of ?get] auto clk mem ok r
    by (simp add: is_on_def attr_def turn_on_example [OF uid] time_time_status_then)
qed

text \<open>
  C8 as stated fails: the list \<^verbatim>\<open>['auto']\<close> is a value outside the swing names, and
  \<^verbatim>\<open>set_swing\<close> fails on it with the \<^verbatim>\<open>TypeError\<close> of the dictionary's membership
  test, not with the \<^verbatim>\<open>ValueError\<close> that lists the valid values.
\<close>

theorem set_swing_unhashable:
  "auto_list \<notin> Str ` set (map fst SWING_NAME_TO_CHAR)
   \<and> outcome (set_swing auto_list example_world (cached_device 999)) = Inl TypeError"
  by (simp add: set_swing_def swing_name_lookup_def hashable_def auto_list_def image_iff)

text \<open>
  C8 (as amended). For every object that is not one of the five modes, \<^verbatim>\<open>set_mode\<close>
  fails with the \<^verbatim>\<open>ValueError\<close> whose message names the object and lists the valid
  modes. For every hashable object (so for every string) that is not a key of the swing
  name table, \<^verbatim>\<open>set_swing\<close> fails with the \<^verbatim>\<open>ValueError\<close> whose message names the
  object and lists the valid swing names; for an unhashable object it fails with
  \<^verbatim>\<open>TypeError\<close>. In all these cases the world (so what was written to the link) and the
  device (so its last-refresh timestamp) are returned unchanged. The string "bogus" is
  hashable and is neither a mode nor a swing name.
\<close>

theorem invalid_argument_rejected:
  "(a \<notin> Str ` set MODES \<longrightarrow>
      set_mode a w d =
        (Inl (ValueError (''Unrecognized mode '' @ py_format a
                @ ''. Valid values: auto cool dry fan heat'')), w, d))
   \<and> (hashable a \<longrightarrow> a \<notin> Str ` set (map fst SWING_NAME_TO_CHAR) \<longrightarrow>
      set_swing a w d =
        (Inl (ValueError (''Unrecognized swing mode '' @ py_format a
                @ ''. Valid values: auto horizontal 30 45 60 vertical'')), w, d))
   \<and> (\<not> hashable a \<longrightarrow> set_swing a w d = (Inl TypeError, w, d))
   \<and> hashable (Str ''bogus'') \<and> py_format (Str ''bogus'') = ''bogus''
   \<and> Str ''bogus'' \<notin> Str ` set MODES
   \<and> Str ''bogus'' \<notin> Str ` set (map fst SWING_NAME_TO_CHAR)"
proof (intro conjI impI)
  assume "a \<notin> Str ` set MODES"
  then show "set_mode a w d =
        (Inl (ValueError (''Unrecognized mode '' @ py_format a
                @ ''. Valid values: auto cool dry fan heat'')), w, d)"
    by (simp add: set_mode_def) (simp add: MODES_def)
next
  assume h: "hashable a" and n: "a \<notin> Str ` set (map fst SWING_NAME_TO_CHAR)"
  have "swing_name_lookup a = Inr None"
  proof (cases a)
    case (Str s)
    then have "s \<notin> set (map fst SWING_NAME_TO_CHAR)"
      using n by auto
    then have "map_of SWING_NAME_TO_CHAR s = None"
      by (simp add: map_of_eq_None_iff)
    with Str show ?thesis
      by (simp add: swing_name_lookup_def hashable_def)
  next
    case (Obj b t)
    with h show ?thesis
      by (simp add: swing_name_lookup_def)
  qed
  then show "set_swing a w d =
        (Inl (ValueError (''Unrecognized swing mode '' @ py_format a
                @ ''. Valid values: auto horizontal 30 45 60 vertical'')), w, d)"
    by (simp add: set_swing_def) (simp add: SWING_NAME_TO_CHAR_def)
next
  assume "\<not> hashable a"
  then show "set_swing a w d = (Inl TypeError, w, d)"
    by (simp add: set_swing_def swing_name_lookup_def)
next
  show "hashable (Str ''bogus'')"
    by (simp add: hashable_def)
  show "py_format (Str ''bogus'') = ''bogus''"
    by (simp add: py_format_def)
  show "Str ''bogus'' \<notin> Str ` set MODES"
    by (simp add: MODES_def image_iff)
  show "Str ''bogus'' \<notin> Str ` set (map fst SWING_NAME_TO_CHAR)"
    by (simp add: SWING_NAME_TO_CHAR_def image_iff)
qed

theorem invalid_argument_rejected_witness:
  "set_mode (Str ''bogus'') example_world (cached_device 999) =
     (Inl (ValueError ''Unrecognized mode bogus. Valid values: auto cool dry fan heat''),
      example_world, cached_device 999)
   \<and> set_swing (Str ''bogus'') example_world (cached_device 999) =
     (Inl (ValueError
        ''Unrecognized swing mode bogus. Valid values: auto horizontal 30 45 60 vertical''),
      example_world, cached_device 999)
   \<and> \<not> hashable auto_list
   \<and> set_swing auto_list example_world (cached_device 999) =
     (Inl TypeError, example_world, cached_device 999)
   \<and> set_mode auto_list example_world (cached_device 999) =
     (Inl (ValueError (''Unrecognized mode '' @ py_format auto_list
             @ ''. Valid values: auto cool dry fan heat'')),
      example_world, cached_device 999)"
proof -
  have 1: "\<not> hashable auto_list" "auto_list \<notin> Str ` set MODES"
    by (simp_all add: hashable_def auto_list_def image_iff)
  show ?thesis
    using invalid_argument_rejected [of "Str ''bogus''" example_world "cached_device 999"]
      invalid_argument_rejected [of auto_list example_world "cached_device 999"] 1
    by simp
qed

subsection \<open>Enumerating the units\<close>

lemma devices_answers:
  assumes "link w 0 = answers body" and "is_ascii body"
  shows "fst (devices b w) =
           Inr (map (\<lambda>line. CoolMasterDevice b (take 3 line) (b_auto_update b))
                  (split_crlf (strip (body @ CRLF))))"
proof -
  have "is_ascii ''stat2''"
    by simp
  from bridge_make_request_answers [OF assms(1) this assms(2)]
  show ?thesis
    by (simp add: devices_def)
qed

text \<open>
  C9 as stated fails: a response line of two characters gives a device whose unit
  identifier is these two characters, and no error.
\<close>

theorem devices_accepts_short_line:
  "length ''10'' < 3
   \<and> fst (devices example_bridge (always_reads (''10'' @ CRLF @ ''OK'' @ CRLF @ ''>'')))
       = Inr [CoolMasterDevice example_bridge ''10'' True]"
proof -
  have 1: "link (always_reads (''10'' @ CRLF @ ''OK'' @ CRLF @ ''>'')) 0 = answers ''10''"
    by (simp add: always_reads_def answers_def)
  have 2: "is_ascii ''10''"
    by simp
  have 3: "split_crlf (strip (''10'' @ CRLF)) = [''10'']"
    by (simp add: split_crlf_def strip_def isspace_def CRLF_def CR_def LF_def)
  show ?thesis
    using devices_answers [OF 1 2, of example_bridge] 3
    by (simp add: example_bridge_def CoolMaster_def)
qed

text \<open>
  C9 (as amended). \<^verbatim>\<open>devices\<close> makes one exchange with the command \<^verbatim>\<open>stat2\<close>. If the
  exchange fails, its error is the result, and no other error is raised. Otherwise the
  stripped response is split at CR LF and the result has one fresh device per line, in
  the order of the lines, whose unit identifier is the first 3 characters of the line, or
  the whole line when it is shorter.
\<close>

theorem devices_per_line:
  "(\<forall>e. fst (bridge_make_request ''stat2'' w) = Inl e \<longrightarrow> fst (devices b w) = Inl e)
   \<and> (\<forall>e. fst (devices b w) = Inl e \<longrightarrow>
          e \<in> {SerialException, PromptNotFound, UnicodeEncodeError, UnicodeDecodeError})
   \<and> (\<forall>r. fst (bridge_make_request ''stat2'' w) = Inr r \<longrightarrow>
          (\<exists>ds. fst (devices b w) = Inr ds
               \<and> length ds = length (split_crlf (strip r))
               \<and> map d_uid ds = map (take 3) (split_crlf (strip r))
               \<and> ds = map (\<lambda>line. CoolMasterDevice b (take 3 line) (b_auto_update b))
                         (split_crlf (strip r)))
        \<and> written (snd (devices b w)) = written w @ [CRLF, ''stat2'' @ CRLF])"
proof -
  obtain res w1 where 1: "bridge_make_request ''stat2'' w = (res, w1)"
    by (cases "bridge_make_request ''stat2'' w")
  show ?thesis
  proof (cases res)
    case (Inl e)
    then show ?thesis
      using 1 bridge_make_request_effect(4) [OF 1] by (simp add: devices_def)
  next
    case (Inr r)
    then show ?thesis
      using 1 bridge_make_request_effect(3) [OF 1]
      by (simp add: devices_def CoolMasterDevice_def comp_def)
  qed
qed

theorem devices_per_line_witness:
  "fst (devices example_bridge
          (always_reads (''101 OFF'' @ CRLF @ ''20'' @ CRLF @ ''OK'' @ CRLF @ ''>'')))
     = Inr [CoolMasterDevice example_bridge ''101'' True,
            CoolMasterDevice example_bridge ''20'' True]"
proof -
  let ?w = "always_reads (''101 OFF'' @ CRLF @ ''20'' @ CRLF @ ''OK'' @ CRLF @ ''>'')"
  have "link ?w 0 = answers (''101 OFF'' @ CRLF @ ''20'')"
    by (simp add: always_reads_def answers_def)
  moreover have "is_ascii ''stat2''" "is_ascii (''101 OFF'' @ CRLF @ ''20'')"
    by simp_all
  ultimately have 1: "fst (bridge_make_request ''stat2'' ?w)
                        = Inr ((''101 OFF'' @ CRLF @ ''20'') @ CRLF)"
    using bridge_make_request_answers [of ?w "''101 OFF'' @ CRLF @ ''20''" "''stat2''"]
    by simp
  have 2: "split_crlf (strip ((''101 OFF'' @ CRLF @ ''20'') @ CRLF)) = [''101 OFF'', ''20'']"
    by (simp add: split_crlf_def strip_def isspace_def CRLF_def CR_def LF_def)
  show ?thesis
    using devices_per_line [of ?w example_bridge] 1 2
    by (auto simp: example_bridge_def CoolMaster_def)
qed

subsection \<open>Setters without validation\<close>

lemma replace_UID_fspeed:
  "replace ''UID'' u (''fspeed UID '' @ v) = ''fspeed '' @ u @ '' '' @ replace ''UID'' u v"
  by simp

lemma replace_UID_temp:
  "replace ''UID'' u (''temp UID '' @ v) = ''temp '' @ u @ '' '' @ replace ''UID'' u v"
  by simp

text \<open>
  C10 as stated fails: a value with a character that is not ASCII is not sent. The
  encoding of the request raises after the synchronising line terminator has been
  written, and the device keeps its timestamp.
\<close>

theorem setter_rejects_non_ascii:
  "outcome (set_fan_speed [CHR 0xE9] command_then_status (cached_device 999))
     = Inl UnicodeEncodeError
   \<and> written (world_after (set_fan_speed [CHR 0xE9] command_then_status (cached_device 999)))
       = [CRLF]
   \<and> device_after (set_fan_speed [CHR 0xE9] command_then_status (cached_device 999))
       = cached_device 999"
  by (simp add: set_fan_speed_def request_then_clear_def device_make_request_def
        bridge_make_request_def command_then_status_def cached_device_def)

text \<open>
  C10 (as amended). \<^verbatim>\<open>set_fan_speed\<close> and \<^verbatim>\<open>set_thermostat\<close> never raise the
  \<^verbatim>\<open>ValueError\<close> of an invalid argument, whatever the value. For every value whose text
  is ASCII, on a link that shows its prompt and answers in ASCII, they write the command
  \<^verbatim>\<open>fspeed\<close> or \<^verbatim>\<open>temp\<close>, the unit identifier and the value (in which every occurrence
  of \<^verbatim>\<open>UID\<close> has been replaced by the unit identifier, as in the rest of the command) and
  then set the last-refresh timestamp to zero. For a value whose text is not ASCII, on a
  link that shows its prompt, the encoding of the request fails: only the synchronising
  line terminator is written and the device is unchanged.
\<close>

theorem setters_do_not_validate:
  "(\<forall>m. outcome (set_fan_speed v w d) \<noteq> Inl (ValueError m))
   \<and> (\<forall>m. outcome (set_thermostat v w d) \<noteq> Inl (ValueError m))
   \<and> (\<forall>raw. link w 0 = Reads (CRLF @ ''>'') raw \<longrightarrow> is_ascii raw \<longrightarrow>
          is_ascii v \<longrightarrow> is_ascii (d_uid d) \<longrightarrow>
            set_fan_speed v w d =
              (Inr (),
               w\<lparr>link := (\<lambda>n. link w (Suc n)),
                 written := written w @
                   [CRLF, ''fspeed '' @ d_uid d @ '' '' @ replace ''UID'' (d_uid d) v @ CRLF]\<rparr>,
               d\<lparr>d_last_refresh_time := 0\<rparr>)
          \<and> set_thermostat v w d =
              (Inr (),
               w\<lparr>link := (\<lambda>n. link w (Suc n)),
                 written := written w @
                   [CRLF, ''temp '' @ d_uid d @ '' '' @ replace ''UID'' (d_uid d) v @ CRLF]\<rparr>,
               d\<lparr>d_last_refresh_time := 0\<rparr>))
   \<and> (\<forall>raw. link w 0 = Reads (CRLF @ ''>'') raw \<longrightarrow> \<not> is_ascii v \<longrightarrow>
            outcome (set_fan_speed v w d) = Inl UnicodeEncodeError
          \<and> device_after (set_fan_speed v w d) = d
          \<and> written (world_after (set_fan_speed v w d)) = written w @ [CRLF]
          \<and> outcome (set_thermostat v w d) = Inl UnicodeEncodeError
          \<and> device_after (set_thermostat v w d) = d
          \<and> written (world_after (set_thermostat v w d)) = written w @ [CRLF])"
proof (intro conjI allI impI)
  fix m
  show "outcome (set_fan_speed v w d) \<noteq> Inl (ValueError m)"
    using request_then_clear_error(1) [of "''fspeed UID '' @ v" w d "ValueError m"]
    by (auto simp: set_fan_speed_def)
  show "outcome (set_thermostat v w d) \<noteq> Inl (ValueError m)"
    using request_then_clear_error(1) [of "''temp UID '' @ v" w d "ValueError m"]
    by (auto simp: set_thermostat_def)
next
  fix raw
  assume reads: "link w 0 = Reads (CRLF @ ''>'') raw" and raw: "is_ascii raw"
    and v: "is_ascii v" and u: "is_ascii (d_uid d)"
  have rv: "is_ascii (replace ''UID'' (d_uid d) v)"
    using u v by (rule is_ascii_replace)
  have "is_ascii (replace ''UID'' (d_uid d) (''fspeed UID '' @ v))"
    unfolding replace_UID_fspeed using u rv by simp
  from request_then_clear_reads [OF reads raw this]
  show "set_fan_speed v w d =
              (Inr (),
               w\<lparr>link := (\<lambda>n. link w (Suc n)),
                 written := written w @
                   [CRLF, ''fspeed '' @ d_uid d @ '' '' @ replace ''UID'' (d_uid d) v @ CRLF]\<rparr>,
               d\<lparr>d_last_refresh_time := 0\<rparr>)"
    unfolding replace_UID_fspeed by (simp add: set_fan_speed_def)
  have "is_ascii (replace ''UID'' (d_uid d) (''temp UID '' @ v))"
    unfolding replace_UID_temp using u rv by simp
  from request_then_clear_reads [OF reads raw this]
  show "set_thermostat v w d =
              (Inr (),
               w\<lparr>link := (\<lambda>n. link w (Suc n)),
                 written := written w @
                   [CRLF, ''temp '' @ d_uid d @ '' '' @ replace ''UID'' (d_uid d) v @ CRLF]\<rparr>,
               d\<lparr>d_last_refresh_time := 0\<rparr>)"
    unfolding replace_UID_temp by (simp add: set_thermostat_def)
next
  fix raw
  assume reads: "link w 0 = Reads (CRLF @ ''>'') raw" and v: "\<not> is_ascii v"
  have "is_ascii ''UID''"
    by simp
  then have rv: "\<not> is_ascii (replace ''UID'' (d_uid d) v)"
    using v by (rule not_is_ascii_replace)
  have f: "\<not> is_ascii (replace ''UID'' (d_uid d) (''fspeed UID '' @ v))"
    unfolding replace_UID_fspeed using rv by simp
  have t: "\<not> is_ascii (replace ''UID'' (d_uid d) (''temp UID '' @ v))"
    unfolding replace_UID_temp using rv by simp
  show "outcome (set_fan_speed v w d) = Inl UnicodeEncodeError"
    and "device_after (set_fan_speed v w d) = d"
    and "written (world_after (set_fan_speed v w d)) = written w @ [CRLF]"
    using request_then_clear_not_encodable [OF reads f] by (simp_all add: set_fan_speed_def)
  show "outcome (set_thermostat v w d) = Inl UnicodeEncodeError"
    and "device_after (set_thermostat v w d) = d"
    and "written (world_after (set_thermostat v w d)) = written w @ [CRLF]"
    using request_then_clear_not_encodable [OF reads t] by (simp_all add: set_thermostat_def)
qed

theorem setters_do_not_validate_witness:
  "outcome (set_fan_speed ''turbo'' command_then_status (cached_device 999)) = Inr ()
   \<and> written (world_after (set_fan_speed ''turbo'' command_then_status (cached_device 999)))
       = [CRLF, ''fspeed 101 turbo'' @ CRLF]
   \<and> d_last_refresh_time
        (device_after (set_fan_speed ''turbo'' command_then_status (cached_device 999))) = 0
   \<and> written (world_after (set_thermostat ''warm'' command_then_status (cached_device 999)))
       = [CRLF, ''temp 101 warm'' @ CRLF]"
proof -
  have 1: "link command_then_status 0 = Reads (CRLF @ ''>'') (''OK'' @ CRLF @ ''>'')"
    by (simp add: command_then_status_def)
  have 2: "is_ascii (''OK'' @ CRLF @ ''>'')" "is_ascii ''turbo''" "is_ascii ''warm''"
    "is_ascii (d_uid (cached_device 999))"
    by (simp_all add: cached_device_def)
  have 3: "written command_then_status = []" "d_uid (cached_device 999) = ''101''"
    by (simp_all add: command_then_status_def cached_device_def)
  show ?thesis
    using setters_do_not_validate [of "''turbo''" command_then_status "cached_device 999"]
      setters_do_not_validate [of "''warm''" command_then_status "cached_device 999"]
      1 2 3
    by simp
qed

end
